theory Spec2Isabelle
  imports Main
begin

section \<open>Python values, exceptions and library functions\<close>

text \<open>
  The Python values that \<open>json.loads\<close> produces and \<open>json.dumps\<close> consumes: \<open>None\<close>,
  booleans, numbers, strings, lists and dictionaries with string keys (in insertion
  order). The type of numbers is left open (\<open>'n\<close>): Python's \<open>int\<close> and \<open>float\<close> are
  never computed with in the functions below.
\<close>

datatype 'n json =
    JNull
  | JBool bool
  | JNumber 'n
  | JString string
  | JArray "'n json list"
  | JObject "(string \<times> 'n json) list"

text \<open>
  A \<open>botocore.exceptions.ClientError\<close>: the two fields of \<open>error.response['Error']\<close>
  that the code reads (\<open>'Code'\<close> and \<open>'Message'\<close>, which an error of the service always
  has), and the text that \<open>str(error)\<close> (the \<open>%s\<close> conversion) gives.
\<close>

record client_error =
  Error_Code :: string
  Error_Message :: string
  error_str :: string

text \<open>What a boto3 client call can raise: a \<open>ClientError\<close>, or any other exception.\<close>

datatype client_exn =
    ClientError client_error
  | OtherException string

text \<open>
  The exceptions that leave the functions of the repository. \<open>HandledError\<close> is the
  Structured Failure; it is kept with the arguments of its raise site: the message (any
  Python value) and the \<open>status_code\<close> keyword, \<open>None\<close> when the site passes none.
  \<open>SystemExit\<close> is Python's process-terminating exception, which is no \<open>Exception\<close>.
\<close>

datatype 'n exn =
    HandledError "'n json" "int option"
  | SystemExit string
  | Raised client_exn
  | KeyError string
  | TypeError string
  | ValueError string
  | RecursionError string
  | JSONDecodeError string

text \<open>
  What \<open>json.loads\<close> raises on a string: a \<open>JSONDecodeError\<close> for a text that is no
  JSON, a plain \<open>ValueError\<close> (an integer of too many digits) or a \<open>RecursionError\<close>
  (a document nested too deep). Only the first is a \<open>JSONDecodeError\<close> to an \<open>except\<close>
  clause.
\<close>

datatype json_error =
    Decode string
  | PlainValue string
  | Recursion string

fun raise_json :: "json_error \<Rightarrow> 'n exn" where
  "raise_json (Decode m) = JSONDecodeError m"
| "raise_json (PlainValue m) = ValueError m"
| "raise_json (Recursion m) = RecursionError m"

text \<open>
  The library functions the code calls, as parameters:
  \<^item> \<open>loads\<close> is \<open>json.loads\<close> on a string (\<open>Inl e\<close>: it raises \<open>raise_json e\<close>);
  \<^item> \<open>dumps\<close> is \<open>json.dumps\<close>;
  \<^item> \<open>str_of\<close> is the text a replacement field of \<open>str.format\<close> gives for a value that
    is no string;
  \<^item> \<open>mapping_error\<close> is the text of the \<open>TypeError\<close> that \<open>**\<close> raises on a value
    that is no mapping;
  \<^item> \<open>float_of\<close> is \<open>float\<close> on a string (\<open>Inl m\<close>: a \<open>ValueError\<close> of text \<open>m\<close>);
  \<^item> \<open>in_score_range x\<close> is the floating-point test \<open>0.99 < x <= 1\<close>.
\<close>

record 'n py =
  loads :: "string \<Rightarrow> json_error + 'n json"
  dumps :: "'n json \<Rightarrow> string"
  str_of :: "'n json \<Rightarrow> string"
  mapping_error :: "'n json \<Rightarrow> string"
  float_of :: "string \<Rightarrow> string + 'n"
  in_score_range :: "'n \<Rightarrow> bool"

text \<open>\<open>s.split(c)\<close> for a one-character separator: never an empty list.\<close>

fun split_acc :: "char \<Rightarrow> string \<Rightarrow> string \<Rightarrow> string list" where
  "split_acc c cur [] = [rev cur]"
| "split_acc c cur (x # xs) =
     (if x = c then rev cur # split_acc c [] xs else split_acc c (x # cur) xs)"

definition split :: "char \<Rightarrow> string \<Rightarrow> string list" where
  "split c s = split_acc c [] s"

text \<open>\<open>s.strip(c)\<close> for a one-character set: drops the leading and trailing \<open>c\<close>.\<close>

definition strip :: "char \<Rightarrow> string \<Rightarrow> string" where
  "strip c s = rev (dropWhile (\<lambda>x. x = c) (rev (dropWhile (\<lambda>x. x = c) s)))"

text \<open>\<open>d[k] = v\<close> on a dictionary: the value is replaced in place, a new key comes last.\<close>

fun dict_set :: "string \<Rightarrow> 'a \<Rightarrow> (string \<times> 'a) list \<Rightarrow> (string \<times> 'a) list" where
  "dict_set k v [] = [(k, v)]"
| "dict_set k v ((k', v') # d) = (if k' = k then (k, v) # d else (k', v') # dict_set k v d)"

text \<open>
  Modelled from the spec: the \<open>Response\<close> class of \<open>utils/__init__.py\<close> (the Response
  Envelope) and the default status of \<open>HandledError\<close> are not among the sources. The
  envelope carries a success payload or an error payload, and a status code; a fresh one
  has neither payload and status 200, \<open>put\<close> stores the success payload; a
  \<open>HandledError\<close> raised with no \<open>status_code\<close> has status 400. The \<open>text\<close> property of
  the class is a parameter of the function that reads it.
\<close>

record 'n Response =
  payload :: "'n json option"
  error_payload :: "'n json option"
  status_code :: int

definition Response_new :: "'n Response" where
  "Response_new = \<lparr>payload = None, error_payload = None, status_code = 200\<rparr>"

definition put :: "'n Response \<Rightarrow> 'n json \<Rightarrow> 'n Response" where
  "put response v = response\<lparr>payload := Some v\<rparr>"

definition status_of :: "int option \<Rightarrow> int" where
  "status_of sc = (case sc of None \<Rightarrow> 400 | Some c \<Rightarrow> c)"

section \<open>\<open>lib/utils/aws.py\<close>: \<open>send_event_to_logstream\<close>\<close>

record log_event =
  timestamp :: int
  message :: string

record put_log_events_request =
  logGroupName :: string
  logStreamName :: string
  logEvents :: "log_event list"
  sequenceToken :: "string option"

text \<open>
  The CloudWatch Logs client is a parameter: from the state of the world and a request it
  gives what \<open>put_log_events\<close> raises (or that it returned) and the new state of the
  world. Every call is recorded, with its outcome, in the list of attempts that the model
  returns beside the result. Making the client (\<open>boto3.client\<close>) calls no service, and
  the calls of \<open>Log\<close> change nothing that the functions read: neither is modelled.
\<close>

type_synonym 'w logs_client =
  "'w \<Rightarrow> put_log_events_request \<Rightarrow> (client_exn + unit) \<times> 'w"

type_synonym attempt = "put_log_events_request \<times> (client_exn + unit)"

text \<open>Python's truth value of \<open>sequence_token\<close>: \<open>None\<close> and \<open>""\<close> are false.\<close>

fun truthy :: "string option \<Rightarrow> bool" where
  "truthy None = False"
| "truthy (Some s) = (s \<noteq> [])"

definition conflict_codes :: "string list" where
  "conflict_codes = [''DataAlreadyAcceptedException'', ''InvalidSequenceTokenException'']"

definition token_of_message :: "string \<Rightarrow> string" where
  "token_of_message m = strip CHR '' '' (last (split CHR '':'' m))"

definition delivered :: "string \<Rightarrow> string \<Rightarrow> string" where
  "delivered log_group log_stream =
     ''Successfully delivered event content to CloudWatch LogGroup '' @ log_group
       @ '' Stream '' @ log_stream"

definition put_request ::
  "string \<Rightarrow> string \<Rightarrow> log_event \<Rightarrow> string option \<Rightarrow> put_log_events_request" where
  "put_request log_group log_stream event sequence_token =
     (if truthy sequence_token
      then \<lparr>logGroupName = log_group, logStreamName = log_stream, logEvents = [event],
            sequenceToken = sequence_token\<rparr>
      else \<lparr>logGroupName = log_group, logStreamName = log_stream, logEvents = [event],
            sequenceToken = None\<rparr>)"

text \<open>
  The \<open>while (not done) and retrials > 0\<close> loop. \<open>done\<close> is false at every test of the
  condition (the only assignment is followed by \<open>return\<close>), so the state of the loop is
  \<open>sequence_token\<close>, \<open>retrials\<close> and the world. Leaving the loop by its condition ends
  the function with no \<open>return\<close>: Python's \<open>None\<close>, here \<open>Inr None\<close>.
\<close>

function send_loop ::
  "'w logs_client \<Rightarrow> string \<Rightarrow> string \<Rightarrow> log_event \<Rightarrow> string option \<Rightarrow> int \<Rightarrow> 'w
     \<Rightarrow> ('n exn + string option) \<times> attempt list \<times> 'w" where
  "send_loop client log_group log_stream event sequence_token retrials w =
     (if retrials > 0 then
        (let req = put_request log_group log_stream event sequence_token in
         case client w req of
           (Inr u, w') \<Rightarrow> (Inr (Some (delivered log_group log_stream)), [(req, Inr u)], w')
         | (Inl (OtherException x), w') \<Rightarrow>
             (Inl (Raised (OtherException x)), [(req, Inl (OtherException x))], w')
         | (Inl (ClientError error), w') \<Rightarrow>
             if Error_Code error \<in> set conflict_codes then
               (if retrials - 1 > 0 then
                  (case send_loop client log_group log_stream event
                          (Some (token_of_message (Error_Message error))) (retrials - 1) w' of
                     (res, attempts, w'') \<Rightarrow>
                       (res, (req, Inl (ClientError error)) # attempts, w''))
                else
                  (Inl (HandledError
                     (JString ''Failed sending event content to CloudWatch Logs after 3 retrials'')
                     (Some 500)),
                   [(req, Inl (ClientError error))], w'))
             else
               (Inl (HandledError
                  (JString (''Unexpected response from boto client: '' @ error_str error))
                  (Some 500)),
                [(req, Inl (ClientError error))], w'))
      else (Inr None, [], w))"
  by pat_completeness auto
termination
  by (relation "measure (\<lambda>(client, log_group, log_stream, event, sequence_token, retrials, w).
        nat retrials)") auto

declare send_loop.simps [simp del]

text \<open>
  The function itself. \<open>time_ms w\<close> is \<open>int(time() * 1000)\<close> read in the world \<open>w\<close>,
  the message is a mapping, false in Python when it has no key.
\<close>

definition send_event_to_logstream ::
  "'w logs_client \<Rightarrow> ('w \<Rightarrow> int) \<Rightarrow> 'n py \<Rightarrow> string \<Rightarrow> string
     \<Rightarrow> (string \<times> 'n json) list \<Rightarrow> 'w
     \<Rightarrow> ('n exn + string option) \<times> attempt list \<times> 'w" where
  "send_event_to_logstream client time_ms py log_group log_stream msg w =
     (if msg \<noteq> [] then
        send_loop client log_group log_stream
          \<lparr>timestamp = time_ms w, message = dumps py (JObject msg)\<rparr> None 3 w
      else
        (Inl (HandledError (JString ''No content to send to Log Stream, aborting'') (Some 500)),
         [], w))"

section \<open>\<open>lib/utils/aws.py\<close>: the single-call helpers\<close>

subsection \<open>\<open>invoke_lambda\<close>\<close>

record invoke_request =
  FunctionName :: string
  InvocationType :: string
  Payload :: string

text \<open>
  What \<open>lambda_client.invoke\<close> returns: \<open>StatusCode\<close>, the content of the stream under
  \<open>"Payload"\<close>, and the text of the whole mapping in an f-string.
\<close>

record lambda_resp =
  StatusCode :: int
  PayloadStream :: string
  resp_str :: string

type_synonym 'w lambda_client =
  "'w \<Rightarrow> invoke_request \<Rightarrow> (client_exn + lambda_resp) \<times> 'w"

definition invoke_lambda ::
  "'w lambda_client \<Rightarrow> 'n py \<Rightarrow> string \<Rightarrow> 'n json \<Rightarrow> string \<Rightarrow> 'w
     \<Rightarrow> ('n exn + 'n Response) \<times> invoke_request list \<times> 'w" where
  "invoke_lambda client py name payload' invoke_type w =
     (if invoke_type \<notin> set [''DryRun'', ''RequestResponse'', ''Event''] then
        (Inl (HandledError (JString (''invalid invoke_type: '' @ invoke_type)) (Some 400)), [], w)
      else
        (let req = \<lparr>FunctionName = name, InvocationType = invoke_type,
                    Payload = dumps py payload'\<rparr> in
         case client w req of
           (Inl x, w') \<Rightarrow> (Inl (Raised x), [req], w')
         | (Inr lambda_resp, w') \<Rightarrow>
             (case (if invoke_type \<in> set [''DryRun'', ''RequestResponse'']
                    then (case loads py (PayloadStream lambda_resp) of
                            Inl e \<Rightarrow> Inl (raise_json e)
                          | Inr lambda_payload \<Rightarrow> Inr (put Response_new lambda_payload))
                    else Inr Response_new) of
                Inl e \<Rightarrow> (Inl e, [req], w')
              | Inr response \<Rightarrow>
                  if \<not> (200 \<le> StatusCode lambda_resp \<and> StatusCode lambda_resp < 300) then
                    (Inl (HandledError (JString (''lambda response: '' @ resp_str lambda_resp))
                            (Some (StatusCode lambda_resp))),
                     [req], w')
                  else (Inr response, [req], w'))))"

subsection \<open>\<open>publish_to_sns_topic\<close>\<close>

record publish_request =
  TopicArn :: string
  Message :: string
  Subject :: string

text \<open>The acknowledgment of \<open>sns.publish\<close> is a mapping; the code reads its \<open>"MessageId"\<close>.\<close>

type_synonym ('w, 'n) sns_client =
  "'w \<Rightarrow> publish_request \<Rightarrow> (client_exn + (string \<times> 'n json) list) \<times> 'w"

definition publish_to_sns_topic ::
  "('w, 'n) sns_client \<Rightarrow> 'n py \<Rightarrow> string \<Rightarrow> string \<Rightarrow> 'n json \<Rightarrow> 'w
     \<Rightarrow> ('n exn + 'n Response) \<times> publish_request list \<times> 'w" where
  "publish_to_sns_topic sns py sns_topic subject content w =
     (let req = \<lparr>TopicArn = sns_topic, Message = dumps py content, Subject = subject\<rparr> in
      case sns w req of
        (Inl x, w') \<Rightarrow> (Inl (Raised x), [req], w')
      | (Inr sns_response, w') \<Rightarrow>
          (case map_of sns_response ''MessageId'' of
             Some message_id \<Rightarrow> (Inr (put Response_new message_id), [req], w')
           | None \<Rightarrow> (Inl (SystemExit ''Missing MessageId in SNS response''), [req], w')))"

subsection \<open>\<open>read_log_stream\<close> and \<open>read_all_log_streams\<close>\<close>

text \<open>
  \<open>get_log_events\<close> gives the \<open>"events"\<close> of its response, \<open>describe_log_streams\<close> the
  \<open>"logStreamName"\<close> of each of its \<open>"logStreams"\<close>.
\<close>

type_synonym ('w, 'n) get_log_events_client =
  "'w \<Rightarrow> string \<Rightarrow> string \<Rightarrow> (client_exn + 'n json list) \<times> 'w"

type_synonym 'w describe_log_streams_client =
  "'w \<Rightarrow> string \<Rightarrow> (client_exn + string list) \<times> 'w"

definition read_log_stream ::
  "('w, 'n) get_log_events_client \<Rightarrow> string \<Rightarrow> string \<Rightarrow> 'w \<Rightarrow> ('n exn + 'n json) \<times> 'w" where
  "read_log_stream client log_group log_stream w =
     (case client w log_group log_stream of
        (Inl x, w') \<Rightarrow> (Inl (Raised x), w')
      | (Inr events, w') \<Rightarrow> (Inr (JArray events), w'))"

text \<open>The dictionary comprehension over \<open>streams\<close>, with the dictionary built so far.\<close>

fun read_streams ::
  "('w, 'n) get_log_events_client \<Rightarrow> string \<Rightarrow> string list \<Rightarrow> (string \<times> 'n json) list \<Rightarrow> 'w
     \<Rightarrow> ('n exn + 'n json) \<times> 'w" where
  "read_streams client log_group [] d w = (Inr (JObject d), w)"
| "read_streams client log_group (stream # streams) d w =
     (case read_log_stream client log_group stream w of
        (Inl e, w') \<Rightarrow> (Inl e, w')
      | (Inr events, w') \<Rightarrow> read_streams client log_group streams (dict_set stream events d) w')"

definition read_all_log_streams ::
  "'w describe_log_streams_client \<Rightarrow> ('w, 'n) get_log_events_client \<Rightarrow> string \<Rightarrow> 'w
     \<Rightarrow> ('n exn + 'n json) \<times> 'w" where
  "read_all_log_streams describe client log_group w =
     (case describe w log_group of
        (Inl x, w') \<Rightarrow> (Inl (Raised x), w')
      | (Inr streams, w') \<Rightarrow> read_streams client log_group streams [] w')"

subsection \<open>\<open>get_object_from_s3_bucket\<close>\<close>

record get_object_request =
  Bucket :: string
  Key :: string

text \<open>The response of \<open>get_object\<close>, of which the code reads the \<open>"Body"\<close>.\<close>

record 'b get_object_response =
  Body :: 'b

type_synonym ('w, 'b) s3_client =
  "'w \<Rightarrow> get_object_request \<Rightarrow> (client_exn + 'b get_object_response) \<times> 'w"

definition get_object_from_s3_bucket ::
  "('w, 'b) s3_client \<Rightarrow> string \<Rightarrow> string \<Rightarrow> 'w \<Rightarrow> ('n exn + 'b) \<times> get_object_request list \<times> 'w" where
  "get_object_from_s3_bucket client key bucket w =
     (let req = \<lparr>Bucket = bucket, Key = key\<rparr> in
      case client w req of
        (Inr response, w') \<Rightarrow> (Inr (Body response), [req], w')
      | (Inl (ClientError error), w') \<Rightarrow>
          if Error_Code error = ''NoSuchKey'' then
            (Inl (HandledError (JString (''Key '' @ key @ '' not found in bucket '' @ bucket))
                    (Some 404)),
             [req], w')
          else (Inl (Raised (ClientError error)), [req], w')
      | (Inl (OtherException x), w') \<Rightarrow> (Inl (Raised (OtherException x)), [req], w'))"

section \<open>\<open>lib/stacks/api/api/main.py\<close>\<close>

text \<open>
  Modelled from the spec: the \<open>LambdaEvent\<close> class is not among the sources. An event has
  a verb, a path and a body, which is a string or null.
\<close>

record event =
  event_verb :: string
  event_path :: string
  event_body :: "string option"

subsection \<open>\<open>social_report\<close>\<close>

definition social_report ::
  "'w describe_log_streams_client \<Rightarrow> ('w, 'n) get_log_events_client \<Rightarrow> (string \<rightharpoonup> string)
     \<Rightarrow> event \<Rightarrow> 'w \<Rightarrow> ('n exn + 'n json) \<times> 'w" where
  "social_report describe client env ev w =
     (case env ''REPORT_LOG_GROUP_NAME'' of
        None \<Rightarrow> (Inl (KeyError ''REPORT_LOG_GROUP_NAME''), w)
      | Some log_group_name \<Rightarrow> read_all_log_streams describe client log_group_name w)"

subsection \<open>\<open>contact\<close>\<close>

definition format_field :: "'n py \<Rightarrow> 'n json \<Rightarrow> string" where
  "format_field py v = (case v of JString s \<Rightarrow> s | _ \<Rightarrow> str_of py v)"

text \<open>
  The template of four lines, each ended by a newline, filled by \<open>.format(**x)\<close>: the keys
  are looked up in the order of the template, and \<open>**\<close> needs a mapping.
\<close>

definition format_contact :: "'n py \<Rightarrow> 'n json \<Rightarrow> 'n exn + string" where
  "format_contact py x =
     (case x of
        JObject d \<Rightarrow>
          (case map_of d ''source'' of
             None \<Rightarrow> Inl (KeyError ''source'')
           | Some source \<Rightarrow>
          (case map_of d ''name'' of
             None \<Rightarrow> Inl (KeyError ''name'')
           | Some name \<Rightarrow>
          (case map_of d ''email'' of
             None \<Rightarrow> Inl (KeyError ''email'')
           | Some email \<Rightarrow>
          (case map_of d ''description'' of
             None \<Rightarrow> Inl (KeyError ''description'')
           | Some description \<Rightarrow>
               Inr (''Source: '' @ format_field py source @ [CHR 0x0A]
                    @ ''Name: '' @ format_field py name @ [CHR 0x0A]
                    @ ''Mail: '' @ format_field py email @ [CHR 0x0A]
                    @ ''Desc: '' @ format_field py description @ [CHR 0x0A])))))
      | _ \<Rightarrow> Inl (TypeError (mapping_error py x)))"

text \<open>
  The \<open>try\<close> block of \<open>contact\<close> with its two handlers: \<open>json.loads\<close> of the body (a
  \<open>TypeError\<close> when the body is \<open>None\<close>), then the template. Both \<open>HandledError\<close>s are
  raised with a message only. What is no \<open>TypeError\<close>, \<open>JSONDecodeError\<close> or \<open>KeyError\<close>
  (the plain \<open>ValueError\<close> and the \<open>RecursionError\<close> of \<open>json.loads\<close>) leaves the block
  as it is.
\<close>

definition contact_message :: "'n py \<Rightarrow> string option \<Rightarrow> 'n exn + string" where
  "contact_message py body =
     (case (case body of
              None \<Rightarrow> Inl (TypeError
                ''the JSON object must be str, bytes or bytearray, not NoneType'')
            | Some b \<Rightarrow>
                (case loads py b of
                   Inl e \<Rightarrow> Inl (raise_json e)
                 | Inr x \<Rightarrow> format_contact py x)) of
        Inr msg \<Rightarrow> Inr msg
      | Inl (TypeError m) \<Rightarrow>
          Inl (HandledError (JString (''JSON body is malformatted: '' @ m)) None)
      | Inl (JSONDecodeError m) \<Rightarrow>
          Inl (HandledError (JString (''JSON body is malformatted: '' @ m)) None)
      | Inl (KeyError k) \<Rightarrow>
          Inl (HandledError (JString (''Missing JSON key: '' @ [CHR 0x27] @ k @ [CHR 0x27])) None)
      | Inl e \<Rightarrow> Inl e)"

definition contact ::
  "'w lambda_client \<Rightarrow> 'n py \<Rightarrow> ('n Response \<Rightarrow> 'n json) \<Rightarrow> (string \<rightharpoonup> string) \<Rightarrow> event \<Rightarrow> 'w
     \<Rightarrow> ('n exn + 'n json) \<times> invoke_request list \<times> 'w" where
  "contact client py text_of env ev w =
     (case env ''LAMBDA_NOTIFICATIONS'' of
        None \<Rightarrow> (Inl (KeyError ''LAMBDA_NOTIFICATIONS''), [], w)
      | Some lambda_notifications \<Rightarrow>
          (case contact_message py (event_body ev) of
             Inl e \<Rightarrow> (Inl e, [], w)
           | Inr msg \<Rightarrow>
               (case invoke_lambda client py lambda_notifications
                       (JObject [(''title'', JString ''New /contact submission received''),
                                 (''payload'', JString msg)])
                       ''RequestResponse'' w of
                  (Inl e, calls, w') \<Rightarrow> (Inl e, calls, w')
                | (Inr response, calls, w') \<Rightarrow> (Inr (text_of response), calls, w'))))"

subsection \<open>\<open>pagespeed_report\<close>\<close>

text \<open>
  \<open>aws.scan_dynamodb_table\<close> is not among the sources: it is a parameter that gives the
  scanned table (its \<open>"Count"\<close> and \<open>"Items"\<close>) or raises.
\<close>

record ddb_item =
  url_S :: string
  latest_score_value_N :: string
  latest_score_timestamp_S :: string

record scan_result =
  Count :: int
  Items :: "ddb_item list"

type_synonym ('w, 'n) scan_client =
  "'w \<Rightarrow> string \<Rightarrow> ('n exn + scan_result) \<times> 'w"

text \<open>The list comprehension: \<open>float\<close> of the first unreadable score raises.\<close>

fun read_items :: "'n py \<Rightarrow> ddb_item list \<Rightarrow> 'n exn + (string \<times> 'n \<times> string) list" where
  "read_items py [] = Inr []"
| "read_items py (item # rest) =
     (case float_of py (latest_score_value_N item) of
        Inl m \<Rightarrow> Inl (ValueError m)
      | Inr score \<Rightarrow>
          (case read_items py rest of
             Inl e \<Rightarrow> Inl e
           | Inr items \<Rightarrow> Inr ((url_S item, score, latest_score_timestamp_S item) # items)))"

text \<open>An item as the dictionary it is, after the loop that marks the scores out of range.\<close>

definition item_dict :: "'n py \<Rightarrow> string \<times> 'n \<times> string \<Rightarrow> 'n json" where
  "item_dict py item =
     (case item of (url, score, ts) \<Rightarrow>
        (let d = [(''url'', JString url), (''latest_score_value'', JNumber score),
                  (''latest_score_timestamp'', JString ts)]
         in if \<not> in_score_range py score then JObject (dict_set ''error'' (JBool True) d)
            else JObject d))"

definition pagespeed_report ::
  "('w, 'n) scan_client \<Rightarrow> 'n py \<Rightarrow> (string \<rightharpoonup> string) \<Rightarrow> event \<Rightarrow> 'w
     \<Rightarrow> ('n exn + 'n json) \<times> 'w" where
  "pagespeed_report scan py env ev w =
     (case env ''PAGESPEED_TABLE'' of
        None \<Rightarrow> (Inl (KeyError ''PAGESPEED_TABLE''), w)
      | Some table \<Rightarrow>
          (case scan w table of
             (Inl e, w') \<Rightarrow> (Inl e, w')
           | (Inr data, w') \<Rightarrow>
               if Count data = 0 then
                 (Inl (HandledError (JString ''Unexpected DynamoDB response: empty table'')
                         (Some 500)), w')
               else
                 (case read_items py (Items data) of
                    Inl e \<Rightarrow> (Inl e, w')
                  | Inr items \<Rightarrow>
                      if list_ex (\<lambda>item. \<not> in_score_range py (fst (snd item))) items then
                        (Inl (HandledError (JArray (map (item_dict py) items)) (Some 400)), w')
                      else (Inr (JArray (map (item_dict py) items)), w'))))"

subsection \<open>\<open>handler\<close> and the router\<close>

text \<open>
  Modelled from the spec: \<open>utils.handlers.ApiGatewayEventHandler\<close> is not among the
  sources. The router builds the key \<open>"VERB PATH"\<close> and looks the handler up by equality;
  with no handler it answers 404; a value the handler returns is the success payload
  with status 200; a \<open>HandledError\<close> gives its message and its status code; any other
  fault gives status 500 and a generic message. A \<open>SystemExit\<close> ends the process: no
  response is made.
\<close>

datatype 'n outcome = Responded "'n Response" | Exited string

definition success :: "'n json \<Rightarrow> 'n Response" where
  "success v = \<lparr>payload = Some v, error_payload = None, status_code = 200\<rparr>"

definition failure :: "'n json \<Rightarrow> int option \<Rightarrow> 'n Response" where
  "failure m sc = \<lparr>payload = None, error_payload = Some m, status_code = status_of sc\<rparr>"

definition failure_unexpected :: "'n Response" where
  "failure_unexpected =
     \<lparr>payload = None, error_payload = Some (JString ''internal error''), status_code = 500\<rparr>"

type_synonym ('w, 'n) handler = "event \<Rightarrow> 'w \<Rightarrow> ('n exn + 'n json) \<times> 'w"

definition dispatch ::
  "(string \<times> ('w, 'n) handler) list \<Rightarrow> event \<Rightarrow> 'w \<Rightarrow> 'n outcome \<times> 'w" where
  "dispatch registry ev w =
     (case map_of registry (event_verb ev @ '' '' @ event_path ev) of
        None \<Rightarrow> (Responded (failure (JString ''route not found'') (Some 404)), w)
      | Some h \<Rightarrow>
          (case h ev w of
             (Inr v, w') \<Rightarrow> (Responded (success v), w')
           | (Inl (HandledError m sc), w') \<Rightarrow> (Responded (failure m sc), w')
           | (Inl (SystemExit x), w') \<Rightarrow> (Exited x, w')
           | (Inl _, w') \<Rightarrow> (Responded failure_unexpected, w')))"

text \<open>The boto3 clients that the handlers of \<open>main.py\<close> reach.\<close>

record ('w, 'n) clients =
  lambda_invoke :: "'w lambda_client"
  logs_describe_log_streams :: "'w describe_log_streams_client"
  logs_get_log_events :: "('w, 'n) get_log_events_client"
  scan_dynamodb_table :: "('w, 'n) scan_client"

definition router_map ::
  "('w, 'n) clients \<Rightarrow> 'n py \<Rightarrow> ('n Response \<Rightarrow> 'n json) \<Rightarrow> (string \<rightharpoonup> string)
     \<Rightarrow> (string \<times> ('w, 'n) handler) list" where
  "router_map aws py text_of env =
     [(''GET /pagespeed_report'', pagespeed_report (scan_dynamodb_table aws) py env),
      (''GET /robots.txt'',
         \<lambda>ev w. (Inr (JString (''User-agent: *'' @ [CHR 0x0A] @ ''Disallow: /'')), w)),
      (''GET /social_report'',
         social_report (logs_describe_log_streams aws) (logs_get_log_events aws) env),
      (''POST /contact'',
         \<lambda>ev w. (case contact (lambda_invoke aws) py text_of env ev w of
                    (res, calls, w') \<Rightarrow> (res, w')))]"

definition handler ::
  "('w, 'n) clients \<Rightarrow> 'n py \<Rightarrow> ('n Response \<Rightarrow> 'n json) \<Rightarrow> (string \<rightharpoonup> string) \<Rightarrow> event \<Rightarrow> 'w
     \<Rightarrow> 'n outcome \<times> 'w" where
  "handler aws py text_of env ev w = dispatch (router_map aws py text_of env) ev w"

section \<open>Reading a result, and concrete clients\<close>

text \<open>
  The \<open>status_code\<close> argument of the \<open>HandledError\<close> that a result raises: \<open>None\<close> when
  the result is no \<open>HandledError\<close>, \<open>Some None\<close> when its raise site passed no status.
\<close>

fun raised_status :: "'n exn + 'a \<Rightarrow> int option option" where
  "raised_status (Inl (HandledError m sc)) = Some sc"
| "raised_status _ = None"

text \<open>
  A world for the examples: a clock in milliseconds and the outcomes that the log service
  will give, in order (it accepts once they are used up). Every call takes a millisecond.
\<close>

definition scripted_logs :: "(int \<times> (client_exn + unit) list) logs_client" where
  "scripted_logs w req =
     (case snd w of
        [] \<Rightarrow> (Inr (), (fst w + 1, []))
      | out # rest \<Rightarrow> (out, (fst w + 1, rest)))"

definition service_error :: "string \<Rightarrow> string \<Rightarrow> client_error" where
  "service_error code m =
     \<lparr>Error_Code = code, Error_Message = m,
      error_str = ''An error occurred ('' @ code
        @ '') when calling the PutLogEvents operation: '' @ m\<rparr>"

definition refusal :: "string \<Rightarrow> string \<Rightarrow> client_exn + unit" where
  "refusal code m = Inl (ClientError (service_error code m))"

definition token_error :: "string \<Rightarrow> client_error" where
  "token_error t =
     service_error ''InvalidSequenceTokenException''
       (''The given sequenceToken is invalid. The next expected sequenceToken is: '' @ t)"

definition invalid_token :: "string \<Rightarrow> client_exn + unit" where
  "invalid_token t = Inl (ClientError (token_error t))"

text \<open>A client that gives one fixed answer; its world counts the calls.\<close>

definition answering :: "'a \<Rightarrow> nat \<Rightarrow> 'r \<Rightarrow> 'a \<times> nat" where
  "answering out w req = (out, Suc w)"

text \<open>
  Library functions for the examples: \<open>loads\<close> knows three documents, \<open>dumps\<close> writes the
  keys of a dictionary with the values that are strings.
\<close>

definition contact_body :: string where
  \<open>contact_body = ''{"source":"web","name":"A","email":"a@x.com","description":"hi"}''\<close>

definition example_py :: "nat py" where
  \<open>example_py =
     \<lparr>loads = (\<lambda>s.
        if s = contact_body then
          Inr (JObject [(''source'', JString ''web''), (''name'', JString ''A''),
                        (''email'', JString ''a@x.com''), (''description'', JString ''hi'')])
        else if s = ''{"source":"web"}'' then Inr (JObject [(''source'', JString ''web'')])
        else if s = ''"sent"'' then Inr (JString ''sent'')
        else Inl (Decode ''Expecting value: line 1 column 1 (char 0)'')),
      dumps = (\<lambda>v. case v of
                 JObject d \<Rightarrow>
                   concat (map (\<lambda>kv. fst kv @ ''='' @ (case snd kv of JString x \<Rightarrow> x | _ \<Rightarrow> ''?'')
                                  @ '';'') d)
               | _ \<Rightarrow> ''null''),
      str_of = (\<lambda>v. ''None''),
      mapping_error = (\<lambda>v. ''format() argument after ** must be a mapping''),
      float_of = (\<lambda>s. if s = ''1.0'' then Inr 100 else if s = ''0.5'' then Inr 50
                       else Inl (''could not convert string to float: '' @ s)),
      in_score_range = (\<lambda>x. 99 < x \<and> x \<le> 100)\<rparr>\<close>

definition example_text :: "nat Response \<Rightarrow> nat json" where
  "example_text response = (case payload response of Some v \<Rightarrow> v | None \<Rightarrow> JNull)"

definition example_env :: "string \<rightharpoonup> string" where
  "example_env = [''LAMBDA_NOTIFICATIONS'' \<mapsto> ''pushover'', ''PAGESPEED_TABLE'' \<mapsto> ''pagespeed'']"

text \<open>Worlds of the log service for the examples, with the clock at 1000.\<close>

definition example_message :: "(string \<times> nat json) list" where
  "example_message = [(''k'', JString ''v'')]"

definition example_event :: log_event where
  "example_event = \<lparr>timestamp = 1000, message = ''k=v;''\<rparr>"

definition four_conflicts :: "int \<times> (client_exn + unit) list" where
  "four_conflicts =
     (1000, [invalid_token ''t1'', invalid_token ''t2'', invalid_token ''t3'',
             invalid_token ''t4''])"

definition one_conflict :: "int \<times> (client_exn + unit) list" where
  "one_conflict = (1000, [invalid_token ''abc123''])"

definition two_conflicts :: "int \<times> (client_exn + unit) list" where
  "two_conflicts = (1000, [invalid_token ''t1'', invalid_token ''t2''])"

definition empty_token_conflict :: "int \<times> (client_exn + unit) list" where
  "empty_token_conflict =
     (1000, [refusal ''DataAlreadyAcceptedException'' ''The next batch can be sent with sequenceToken:''])"

definition conflict_then_denied :: "int \<times> (client_exn + unit) list" where
  "conflict_then_denied =
     (1000, [invalid_token ''t1'', refusal ''AccessDeniedException'' ''not authorized''])"

text \<open>Answers of the Lambda service for the examples, and events of the API.\<close>

definition sent_invocation :: lambda_resp where
  \<open>sent_invocation =
     \<lparr>StatusCode = 200, PayloadStream = ''"sent"'', resp_str = ''{StatusCode: 200}''\<rparr>\<close>

definition failed_invocation :: lambda_resp where
  \<open>failed_invocation =
     \<lparr>StatusCode = 500, PayloadStream = ''"sent"'', resp_str = ''{StatusCode: 500}''\<rparr>\<close>

definition failed_empty_invocation :: lambda_resp where
  "failed_empty_invocation =
     \<lparr>StatusCode = 500, PayloadStream = [], resp_str = ''{StatusCode: 500}''\<rparr>"

definition contact_event :: "string option \<Rightarrow> event" where
  "contact_event body = \<lparr>event_verb = ''POST'', event_path = ''/contact'', event_body = body\<rparr>"

definition example_clients :: "lambda_resp \<Rightarrow> (nat, nat) clients" where
  "example_clients lambda_resp =
     \<lparr>lambda_invoke = answering (Inr lambda_resp),
      logs_describe_log_streams = answering (Inr []),
      logs_get_log_events = (\<lambda>w log_group. answering (Inr []) w),
      scan_dynamodb_table = answering (Inr \<lparr>Count = 0, Items = []\<rparr>)\<rparr>"

section \<open>The string helpers\<close>

lemma split_acc_nonempty: "split_acc c cur s \<noteq> []"
  by (induction s arbitrary: cur) auto

lemma last_split_acc:
  "c \<notin> set cur \<Longrightarrow>
     last (split_acc c cur s) = rev (takeWhile (\<lambda>x. x \<noteq> c) (rev s @ cur))"
proof (induction s arbitrary: cur)
  case Nil
  then have h: "takeWhile (\<lambda>x. x \<noteq> c) cur = cur"
    by (intro takeWhile_eq_all_conv [THEN iffD2]) auto
  show ?case by (simp add: h)
next
  case (Cons x xs)
  show ?case
  proof (cases "x = c")
    case True
    have "last (split_acc c cur (x # xs)) = last (split_acc c [] xs)"
      using True by (simp add: split_acc_nonempty)
    also have "\<dots> = rev (takeWhile (\<lambda>x. x \<noteq> c) (rev xs))"
      using Cons.IH [of "[]"] by simp
    also have "takeWhile (\<lambda>x. x \<noteq> c) (rev xs) = takeWhile (\<lambda>x. x \<noteq> c) (rev (x # xs) @ cur)"
      using True by (simp add: takeWhile_append)
    finally show ?thesis .
  next
    case False
    with Cons.prems Cons.IH [of "x # cur"] show ?thesis by simp
  qed
qed

text \<open>The last piece of \<open>s.split(c)\<close> is what follows the last \<open>c\<close> of \<open>s\<close>.\<close>

lemma last_split: "last (split c s) = rev (takeWhile (\<lambda>x. x \<noteq> c) (rev s))"
  by (simp add: split_def last_split_acc)

section \<open>The retry loop\<close>

text \<open>
  One turn of the loop: it is not entered, or its attempt is the last one, or the attempt
  meets a conflict with budget left and the loop goes on with the token of the message.
\<close>

lemma send_loop_cases [consumes 1, case_names stop final retry]:
  fixes res :: "'n exn + string option"
  assumes "send_loop client lg ls event tok retrials w = (res, attempts, w')"
  obtains
    (stop) "\<not> 0 < retrials" "attempts = []" "res = Inr None" "w' = w"
  | (final) out where "0 < retrials"
      "client w (put_request lg ls event tok) = (out, w')"
      "attempts = [(put_request lg ls event tok, out)]"
      "res = (case out of
                Inr u \<Rightarrow> Inr (Some (delivered lg ls))
              | Inl (OtherException x) \<Rightarrow> Inl (Raised (OtherException x))
              | Inl (ClientError e) \<Rightarrow>
                  if Error_Code e \<in> set conflict_codes then
                    Inl (HandledError (JString
                      ''Failed sending event content to CloudWatch Logs after 3 retrials'')
                      (Some 500))
                  else
                    Inl (HandledError (JString
                      (''Unexpected response from boto client: '' @ error_str e)) (Some 500)))"
      "\<And>e. out = Inl (ClientError e) \<Longrightarrow> Error_Code e \<in> set conflict_codes \<Longrightarrow> retrials = 1"
  | (retry) e w1 rest where "1 < retrials"
      "client w (put_request lg ls event tok) = (Inl (ClientError e), w1)"
      "Error_Code e \<in> set conflict_codes"
      "send_loop client lg ls event (Some (token_of_message (Error_Message e)))
         (retrials - 1) w1 = (res, rest, w')"
      "attempts = (put_request lg ls event tok, Inl (ClientError e)) # rest"
proof (cases "0 < retrials")
  case False
  with assms stop show ?thesis
    by (subst (asm) send_loop.simps) simp
next
  case pos: True
  obtain out w1 where c: "client w (put_request lg ls event tok) = (out, w1)"
    by (cases "client w (put_request lg ls event tok)")
  show ?thesis
  proof (cases "\<exists>e. out = Inl (ClientError e) \<and> Error_Code e \<in> set conflict_codes \<and> 1 < retrials")
    case True
    then obtain e where e: "out = Inl (ClientError e)" "Error_Code e \<in> set conflict_codes"
      "1 < retrials" by blast
    obtain res2 :: "'n exn + string option" and rest w2 where
      r: "send_loop client lg ls event (Some (token_of_message (Error_Message e)))
            (retrials - 1) w1 = (res2, rest, w2)"
      by (metis prod_cases3)
    from assms pos c e r have "res = res2 \<and> attempts = (put_request lg ls event tok, out) # rest \<and> w' = w2"
      by (subst (asm) send_loop.simps) (auto simp: Let_def)
    with e c r retry show ?thesis by blast
  next
    case False
    with assms pos c have
      "attempts = [(put_request lg ls event tok, out)] \<and> w' = w1 \<and>
       res = (case out of
                Inr u \<Rightarrow> Inr (Some (delivered lg ls))
              | Inl (OtherException x) \<Rightarrow> Inl (Raised (OtherException x))
              | Inl (ClientError e) \<Rightarrow>
                  if Error_Code e \<in> set conflict_codes then
                    Inl (HandledError (JString
                      ''Failed sending event content to CloudWatch Logs after 3 retrials'')
                      (Some 500))
                  else
                    Inl (HandledError (JString
                      (''Unexpected response from boto client: '' @ error_str e)) (Some 500)))"
      by (subst (asm) send_loop.simps)
         (auto simp: Let_def split: sum.splits client_exn.splits if_splits)
    moreover have "\<And>e. out = Inl (ClientError e) \<Longrightarrow> Error_Code e \<in> set conflict_codes \<Longrightarrow> retrials = 1"
      using False pos by auto
    ultimately show ?thesis using final pos c by blast
  qed
qed


lemma send_loop_induct [consumes 1, case_names stop final retry]:
  fixes res :: "'n exn + string option"
  assumes run: "send_loop client lg ls event tok retrials w = (res, attempts, w')"
    and stop: "\<And>tok retrials w. \<not> 0 < retrials \<Longrightarrow> res = Inr None \<Longrightarrow> w' = w \<Longrightarrow>
      P tok retrials w []"
    and final: "\<And>tok retrials w out. 0 < retrials \<Longrightarrow>
      client w (put_request lg ls event tok) = (out, w') \<Longrightarrow>
      res = (case out of
                Inr u \<Rightarrow> Inr (Some (delivered lg ls))
              | Inl (OtherException x) \<Rightarrow> Inl (Raised (OtherException x))
              | Inl (ClientError e) \<Rightarrow>
                  if Error_Code e \<in> set conflict_codes then
                    Inl (HandledError (JString
                      ''Failed sending event content to CloudWatch Logs after 3 retrials'')
                      (Some 500))
                  else
                    Inl (HandledError (JString
                      (''Unexpected response from boto client: '' @ error_str e)) (Some 500))) \<Longrightarrow>
      (\<And>e. out = Inl (ClientError e) \<Longrightarrow> Error_Code e \<in> set conflict_codes \<Longrightarrow> retrials = 1) \<Longrightarrow>
      P tok retrials w [(put_request lg ls event tok, out)]"
    and retry: "\<And>tok retrials w e w1 rest. 1 < retrials \<Longrightarrow>
      client w (put_request lg ls event tok) = (Inl (ClientError e), w1) \<Longrightarrow>
      Error_Code e \<in> set conflict_codes \<Longrightarrow>
      send_loop client lg ls event (Some (token_of_message (Error_Message e)))
         (retrials - 1) w1 = (res, rest, w') \<Longrightarrow>
      P (Some (token_of_message (Error_Message e))) (retrials - 1) w1 rest \<Longrightarrow>
      P tok retrials w ((put_request lg ls event tok, Inl (ClientError e)) # rest)"
  shows "P tok retrials w attempts"
  using run
proof (induction "nat retrials" arbitrary: tok retrials w attempts)
  case 0
  from "0.prems" show ?case
  proof (cases rule: send_loop_cases)
    case stop': stop
    then show ?thesis using stop by simp
  next
    case (final out)
    with "0.hyps" show ?thesis by simp
  next
    case (retry e w1 rest)
    with "0.hyps" show ?thesis by simp
  qed
next
  case (Suc n)
  from Suc.prems show ?case
  proof (cases rule: send_loop_cases)
    case stop': stop
    then show ?thesis using stop by simp
  next
    case final': (final out)
    show ?thesis
      unfolding final'(3)
      by (rule final [OF final'(1,2,4)]) (rule final'(5))
  next
    case retry': (retry e w1 rest)
    from Suc.hyps(2) retry'(1) have "n = nat (retrials - 1)" by simp
    from Suc.hyps(1) [OF this retry'(4)]
    have "P (Some (token_of_message (Error_Message e))) (retrials - 1) w1 rest" .
    from retry [OF retry'(1,2,3,4) this] show ?thesis
      unfolding retry'(5) .
  qed
qed

lemma send_loop_requests:
  fixes res :: "'n exn + string option"
  assumes "send_loop client lg ls event tok retrials w = (res, attempts, w')"
  shows "\<forall>a\<in>set attempts.
    logGroupName (fst a) = lg \<and> logStreamName (fst a) = ls \<and> logEvents (fst a) = [event]"
  using assms by (induction rule: send_loop_induct) (auto simp: put_request_def)

lemma send_loop_status:
  fixes res :: "'n exn + string option"
  assumes "send_loop client lg ls event tok retrials w = (res, attempts, w')"
  shows "raised_status res = None \<or> raised_status res = Some (Some 500)"
  using assms
  by (induction rule: send_loop_induct)
     (auto split: sum.splits client_exn.splits)

lemma send_loop_fatal:
  fixes res :: "'n exn + string option"
  assumes "send_loop client lg ls event tok retrials w = (res, attempts, w')"
  shows "\<forall>i e. i < length attempts \<longrightarrow> snd (attempts ! i) = Inl (ClientError e) \<longrightarrow>
    Error_Code e \<notin> set conflict_codes \<longrightarrow>
    Suc i = length attempts \<and>
    res = Inl (HandledError (JString (''Unexpected response from boto client: '' @ error_str e))
             (Some 500))"
  using assms
proof (induction rule: send_loop_induct)
  case (retry tok retrials w e w1 rest)
  show ?case
  proof (intro allI impI)
    fix i e'
    assume i: "i < length ((put_request lg ls event tok, Inl (ClientError e)) # rest)"
      and o: "snd (((put_request lg ls event tok, Inl (ClientError e)) # rest) ! i) = Inl (ClientError e')"
      and c: "Error_Code e' \<notin> set conflict_codes"
    show "Suc i = length ((put_request lg ls event tok, Inl (ClientError e)) # rest) \<and>
      res = Inl (HandledError (JString (''Unexpected response from boto client: '' @ error_str e'))
             (Some 500))"
    proof (cases i)
      case 0
      with o c retry(3) show ?thesis by simp
    next
      case (Suc j)
      with i o c retry.IH show ?thesis by simp
    qed
  qed
qed simp_all

lemma send_event_loop:
  fixes res :: "'n exn + string option"
  assumes "send_event_to_logstream client time_ms py log_group log_stream msg w =
             (res, attempts, w')"
    and "attempts \<noteq> [] \<or> msg \<noteq> []"
  shows "send_loop client log_group log_stream
           \<lparr>timestamp = time_ms w, message = dumps py (JObject msg)\<rparr> None 3 w =
         (res, attempts, w')"
  using assms by (auto simp: send_event_to_logstream_def split: if_splits)

text \<open>
  One turn of the loop from the answer of the client: the attempt is accepted, it raises
  what is no \<open>ClientError\<close>, it meets an error that is no conflict, it meets the last
  conflict of the budget, or it meets a conflict with budget left.
\<close>

lemma send_loop_accepted:
  "0 < retrials \<Longrightarrow> client w (put_request lg ls event tok) = (Inr u, w1) \<Longrightarrow>
   send_loop client lg ls event tok retrials w =
     (Inr (Some (delivered lg ls)), [(put_request lg ls event tok, Inr u)], w1)"
  by (subst send_loop.simps) simp

lemma send_loop_other:
  "0 < retrials \<Longrightarrow>
   client w (put_request lg ls event tok) = (Inl (OtherException x), w1) \<Longrightarrow>
   send_loop client lg ls event tok retrials w =
     (Inl (Raised (OtherException x)),
      [(put_request lg ls event tok, Inl (OtherException x))], w1)"
  by (subst send_loop.simps) simp

lemma send_loop_unrecognized:
  "0 < retrials \<Longrightarrow>
   client w (put_request lg ls event tok) = (Inl (ClientError e), w1) \<Longrightarrow>
   Error_Code e \<notin> set conflict_codes \<Longrightarrow>
   send_loop client lg ls event tok retrials w =
     (Inl (HandledError (JString (''Unexpected response from boto client: '' @ error_str e))
             (Some 500)),
      [(put_request lg ls event tok, Inl (ClientError e))], w1)"
  by (subst send_loop.simps) simp

lemma send_loop_last_conflict:
  "client w (put_request lg ls event tok) = (Inl (ClientError e), w1) \<Longrightarrow>
   Error_Code e \<in> set conflict_codes \<Longrightarrow>
   send_loop client lg ls event tok 1 w =
     (Inl (HandledError
        (JString ''Failed sending event content to CloudWatch Logs after 3 retrials'')
        (Some 500)),
      [(put_request lg ls event tok, Inl (ClientError e))], w1)"
  by (subst send_loop.simps) simp

lemma send_loop_conflict:
  "1 < retrials \<Longrightarrow>
   client w (put_request lg ls event tok) = (Inl (ClientError e), w1) \<Longrightarrow>
   Error_Code e \<in> set conflict_codes \<Longrightarrow>
   send_loop client lg ls event tok retrials w =
     (case send_loop client lg ls event (Some (token_of_message (Error_Message e)))
             (retrials - 1) w1 of
        (res, attempts, w2) \<Rightarrow>
          (res, (put_request lg ls event tok, Inl (ClientError e)) # attempts, w2))"
  by (subst send_loop.simps) simp

text \<open>The request that \<open>put_request\<close> makes of the value of \<open>sequence_token\<close>.\<close>

lemma put_request_token:
  "put_request lg ls event (Some t) =
     \<lparr>logGroupName = lg, logStreamName = ls, logEvents = [event],
      sequenceToken = (if t = [] then None else Some t)\<rparr>"
  "put_request lg ls event None =
     \<lparr>logGroupName = lg, logStreamName = ls, logEvents = [event], sequenceToken = None\<rparr>"
  by (simp_all add: put_request_def)

text \<open>The message format of the service: free text, a colon, a space, the token.\<close>

lemma token_of_format:
  assumes "token \<noteq> []" and "CHR '':'' \<notin> set token"
    and "hd token \<noteq> CHR '' ''" and "last token \<noteq> CHR '' ''"
  shows "token_of_message (text @ '': '' @ token) = token"
proof -
  have "takeWhile (\<lambda>x. x \<noteq> CHR '':'') (rev token @ '' :'' @ rev text) =
          rev token @ takeWhile (\<lambda>x. x \<noteq> CHR '':'') ('' :'' @ rev text)"
    by (rule takeWhile_append2) (use assms(2) in auto)
  then have "takeWhile (\<lambda>x. x \<noteq> CHR '':'') (rev (text @ '': '' @ token)) = rev token @ '' ''"
    by simp
  then have l: "last (split CHR '':'' (text @ '': '' @ token)) = '' '' @ token"
    by (simp add: last_split)
  from assms(1,3) have d: "dropWhile (\<lambda>x. x = CHR '' '') token = token"
    by (cases token) simp_all
  from assms(1,4) have r: "dropWhile (\<lambda>x. x = CHR '' '') (rev token) = rev token"
    by (cases "rev token") (simp_all add: last_rev hd_rev)
  from l d r show ?thesis
    by (simp add: token_of_message_def strip_def)
qed

text \<open>The function enters the loop with no token and a budget of three.\<close>

lemma send_event_first:
  assumes "msg \<noteq> []"
  shows "send_event_to_logstream client time_ms py lg ls msg w =
    send_loop client lg ls \<lparr>timestamp = time_ms w, message = dumps py (JObject msg)\<rparr> None 3 w"
  using assms by (simp add: send_event_to_logstream_def)

lemma send_loop_head:
  fixes client :: "'w logs_client"
  assumes "0 < retrials" and "client w (put_request lg ls event tok) = (out, w1)"
  shows "\<exists>rest. fst (snd (send_loop client lg ls event tok retrials w
           :: ('n exn + string option) \<times> attempt list \<times> 'w)) =
         (put_request lg ls event tok, out) # rest"
proof -
  obtain res :: "'n exn + string option" and attempts w' where
    r: "send_loop client lg ls event tok retrials w = (res, attempts, w')"
    by (metis prod_cases3)
  then show ?thesis
  proof (cases rule: send_loop_cases)
    case stop
    with assms show ?thesis by simp
  next
    case (final out')
    with assms r show ?thesis by simp
  next
    case (retry e w1' rest)
    with assms r show ?thesis by simp
  qed
qed

section \<open>The log writer: \<open>send_event_to_logstream\<close>\<close>

text \<open>
  C3. Called with an empty message mapping, \<open>send_event_to_logstream\<close> fails at once with
  a \<open>HandledError\<close> of status 500: the list of network attempts is empty and the world is
  the one it was given.
\<close>

theorem empty_message_fails:
  "send_event_to_logstream client time_ms py log_group log_stream [] w =
     (Inl (HandledError (JString ''No content to send to Log Stream, aborting'') (Some 500)),
      [], w)"
  by (simp add: send_event_to_logstream_def)

text \<open>
  C1, as the code has it. The budget \<open>retrials = 3\<close> counts every attempt, the first one
  included. For a message that is not empty: when the service answers the first request
  (no token) with a recognized conflict, the second request with a recognized conflict
  and the third request with a recognized conflict, the call fails with a \<open>HandledError\<close>
  of status 500 whose message says "3 retrials", after exactly these three requests and
  in the world that the third answer leaves: there is no fourth request. The second and
  the third request carry the token of the conflict before, which is the text after the
  last colon of its message with the spaces around it dropped, and no token when this
  text is empty.
\<close>

theorem retry_budget:
  fixes client :: "'w logs_client" and py :: "'n py"
  defines "request lg ls ev t \<equiv>
    \<lparr>logGroupName = lg, logStreamName = ls, logEvents = [ev], sequenceToken = t\<rparr>"
    and "next_token e \<equiv>
      (if token_of_message (Error_Message e) = [] then None
       else Some (token_of_message (Error_Message e)))"
  assumes "msg \<noteq> []"
    and "client w (request log_group log_stream
            \<lparr>timestamp = time_ms w, message = dumps py (JObject msg)\<rparr> None) =
           (Inl (ClientError e), w')"
    and "Error_Code e \<in> set conflict_codes"
    and "client w' (request log_group log_stream
            \<lparr>timestamp = time_ms w, message = dumps py (JObject msg)\<rparr> (next_token e)) =
           (Inl (ClientError e'), w'')"
    and "Error_Code e' \<in> set conflict_codes"
    and "client w'' (request log_group log_stream
            \<lparr>timestamp = time_ms w, message = dumps py (JObject msg)\<rparr> (next_token e')) =
           (Inl (ClientError e''), w''')"
    and "Error_Code e'' \<in> set conflict_codes"
  shows "send_event_to_logstream client time_ms py log_group log_stream msg w =
    (Inl (HandledError
       (JString ''Failed sending event content to CloudWatch Logs after 3 retrials'')
       (Some 500) :: 'n exn),
     [(request log_group log_stream
         \<lparr>timestamp = time_ms w, message = dumps py (JObject msg)\<rparr> None,
       Inl (ClientError e)),
      (request log_group log_stream
         \<lparr>timestamp = time_ms w, message = dumps py (JObject msg)\<rparr> (next_token e),
       Inl (ClientError e')),
      (request log_group log_stream
         \<lparr>timestamp = time_ms w, message = dumps py (JObject msg)\<rparr> (next_token e'),
       Inl (ClientError e''))],
     w''')"
proof -
  let ?ev = "\<lparr>timestamp = time_ms w, message = dumps py (JObject msg)\<rparr>"
  have c1: "client w (put_request log_group log_stream ?ev None) = (Inl (ClientError e), w')"
    using assms(4) by (simp add: put_request_token request_def)
  have c2: "client w' (put_request log_group log_stream ?ev
      (Some (token_of_message (Error_Message e)))) = (Inl (ClientError e'), w'')"
    using assms(6) by (simp add: put_request_token request_def next_token_def)
  have c3: "client w'' (put_request log_group log_stream ?ev
      (Some (token_of_message (Error_Message e')))) = (Inl (ClientError e''), w''')"
    using assms(8) by (simp add: put_request_token request_def next_token_def)
  have "send_loop client log_group log_stream ?ev
      (Some (token_of_message (Error_Message e'))) 1 w'' =
    (Inl (HandledError
       (JString ''Failed sending event content to CloudWatch Logs after 3 retrials'')
       (Some 500) :: 'n exn),
     [(put_request log_group log_stream ?ev (Some (token_of_message (Error_Message e'))),
       Inl (ClientError e''))], w''')"
    by (rule send_loop_last_conflict [where client = client, OF c3 assms(9)])
  then have "send_loop client log_group log_stream ?ev
      (Some (token_of_message (Error_Message e))) 2 w' =
    (Inl (HandledError
       (JString ''Failed sending event content to CloudWatch Logs after 3 retrials'')
       (Some 500) :: 'n exn),
     [(put_request log_group log_stream ?ev (Some (token_of_message (Error_Message e))),
       Inl (ClientError e')),
      (put_request log_group log_stream ?ev (Some (token_of_message (Error_Message e'))),
       Inl (ClientError e''))], w''')"
    by (simp add: send_loop_conflict [where client = client, OF _ c2 assms(7)])
  then have "send_loop client log_group log_stream ?ev None 3 w =
    (Inl (HandledError
       (JString ''Failed sending event content to CloudWatch Logs after 3 retrials'')
       (Some 500) :: 'n exn),
     [(put_request log_group log_stream ?ev None, Inl (ClientError e)),
      (put_request log_group log_stream ?ev (Some (token_of_message (Error_Message e))),
       Inl (ClientError e')),
      (put_request log_group log_stream ?ev (Some (token_of_message (Error_Message e'))),
       Inl (ClientError e''))], w''')"
    by (simp add: send_loop_conflict [where client = client, OF _ c1 assms(5)])
  then show ?thesis
    by (simp add: send_event_first [OF assms(3)] put_request_token request_def next_token_def)
qed

text \<open>
  The log service answers four calls with a conflict, with the tokens \<open>t1\<close> to \<open>t4\<close>; the
  writer makes three of them.
\<close>

lemma example_dumps: "dumps example_py (JObject example_message) = ''k=v;''"
  by code_simp

lemma token_of_token_error: 
  "token \<noteq> [] \<Longrightarrow> CHR '':'' \<notin> set token \<Longrightarrow> hd token \<noteq> CHR '' '' \<Longrightarrow>
   last token \<noteq> CHR '' '' \<Longrightarrow> token_of_message (Error_Message (token_error token)) = token"
  using token_of_format
    [of token "''The given sequenceToken is invalid. The next expected sequenceToken is''"]
  by (simp add: token_error_def service_error_def)

lemma token_error_conflict: "Error_Code (token_error t) \<in> set conflict_codes"
  by (simp add: token_error_def service_error_def conflict_codes_def)

lemma scripted_logs_next: "scripted_logs (t, out # rest) req = (out, (t + 1, rest))"
  by (simp add: scripted_logs_def)

lemma scripted_logs_done: "scripted_logs (t, []) req = (Inr (), (t + 1, []))"
  by (simp add: scripted_logs_def)

theorem retry_budget_witness:
  "send_event_to_logstream scripted_logs fst example_py ''g'' ''s'' example_message
     four_conflicts =
   (Inl (HandledError
      (JString ''Failed sending event content to CloudWatch Logs after 3 retrials'')
      (Some 500)),
    [(\<lparr>logGroupName = ''g'', logStreamName = ''s'',
       logEvents = [\<lparr>timestamp = 1000, message = ''k=v;''\<rparr>], sequenceToken = None\<rparr>,
      invalid_token ''t1''),
     (\<lparr>logGroupName = ''g'', logStreamName = ''s'',
       logEvents = [\<lparr>timestamp = 1000, message = ''k=v;''\<rparr>], sequenceToken = Some ''t1''\<rparr>,
      invalid_token ''t2''),
     (\<lparr>logGroupName = ''g'', logStreamName = ''s'',
       logEvents = [\<lparr>timestamp = 1000, message = ''k=v;''\<rparr>], sequenceToken = Some ''t2''\<rparr>,
      invalid_token ''t3'')],
    (1003, [invalid_token ''t4'']))"
proof -
  have t: "token_of_message (Error_Message (token_error ''t1'')) = ''t1''"
    "token_of_message (Error_Message (token_error ''t2'')) = ''t2''"
    by (simp_all add: token_of_token_error)
  have "send_event_to_logstream scripted_logs fst example_py ''g'' ''s'' example_message
     four_conflicts =
   (Inl (HandledError
      (JString ''Failed sending event content to CloudWatch Logs after 3 retrials'')
      (Some 500)),
    [(\<lparr>logGroupName = ''g'', logStreamName = ''s'',
       logEvents = [\<lparr>timestamp = fst four_conflicts,
                     message = dumps example_py (JObject example_message)\<rparr>],
       sequenceToken = None\<rparr>,
      Inl (ClientError (token_error ''t1''))),
     (\<lparr>logGroupName = ''g'', logStreamName = ''s'',
       logEvents = [\<lparr>timestamp = fst four_conflicts,
                     message = dumps example_py (JObject example_message)\<rparr>],
       sequenceToken =
         (if token_of_message (Error_Message (token_error ''t1'')) = [] then None
          else Some (token_of_message (Error_Message (token_error ''t1''))))\<rparr>,
      Inl (ClientError (token_error ''t2''))),
     (\<lparr>logGroupName = ''g'', logStreamName = ''s'',
       logEvents = [\<lparr>timestamp = fst four_conflicts,
                     message = dumps example_py (JObject example_message)\<rparr>],
       sequenceToken =
         (if token_of_message (Error_Message (token_error ''t2'')) = [] then None
          else Some (token_of_message (Error_Message (token_error ''t2''))))\<rparr>,
      Inl (ClientError (token_error ''t3'')))],
    (1003, [invalid_token ''t4'']))"
    by (rule retry_budget
          [where client = scripted_logs and w' = "(1001, [invalid_token ''t2'',
             invalid_token ''t3'', invalid_token ''t4''])"
           and w'' = "(1002, [invalid_token ''t3'', invalid_token ''t4''])"])
       (simp_all add: example_message_def four_conflicts_def scripted_logs_next
          invalid_token_def token_error_conflict)
  then show ?thesis
    by (simp add: t example_dumps four_conflicts_def invalid_token_def)
qed

text \<open>
  The claim as the spec states it (three attempts after the first conflict, the fourth
  with the token of the third conflict) fails on that service: no fourth call is made, the
  token \<open>t3\<close> is never sent, and the fourth answer of the service is left unused.
\<close>

theorem four_calls_counterexample:
  "length (fst (snd (send_event_to_logstream scripted_logs fst example_py ''g'' ''s''
     example_message four_conflicts))) \<noteq> 4 \<and>
   map (sequenceToken \<circ> fst) (fst (snd (send_event_to_logstream scripted_logs fst example_py
     ''g'' ''s'' example_message four_conflicts))) = [None, Some ''t1'', Some ''t2''] \<and>
   snd (snd (send_event_to_logstream scripted_logs fst example_py ''g'' ''s''
     example_message four_conflicts)) = (1003, [invalid_token ''t4''])"
  by code_simp

text \<open>The attempts of a call, one after the other, from the answers of the client.\<close>

lemma first_attempt:
  fixes client :: "'w logs_client"
  assumes "msg \<noteq> []"
    and "client w (put_request lg ls \<lparr>timestamp = time_ms w, message = dumps py (JObject msg)\<rparr>
        None) = (out, w')"
  shows "\<exists>rest. fst (snd (send_event_to_logstream client time_ms py lg ls msg w
          :: ('n exn + string option) \<times> attempt list \<times> 'w)) =
      (put_request lg ls \<lparr>timestamp = time_ms w, message = dumps py (JObject msg)\<rparr> None, out)
      # rest"
  unfolding send_event_first [OF assms(1)]
  by (rule send_loop_head [where client = client, OF _ assms(2)]) simp

lemma second_attempt:
  fixes client :: "'w logs_client"
  assumes "msg \<noteq> []"
    and c0: "client w (put_request lg ls \<lparr>timestamp = time_ms w, message = dumps py (JObject msg)\<rparr>
        None) = (Inl (ClientError e), w')"
    and k: "Error_Code e \<in> set conflict_codes"
    and c1: "client w' (put_request lg ls \<lparr>timestamp = time_ms w, message = dumps py (JObject msg)\<rparr>
        (Some (token_of_message (Error_Message e)))) = (out, w'')"
  shows "\<exists>rest. fst (snd (send_event_to_logstream client time_ms py lg ls msg w
          :: ('n exn + string option) \<times> attempt list \<times> 'w)) =
      (put_request lg ls \<lparr>timestamp = time_ms w, message = dumps py (JObject msg)\<rparr> None,
       Inl (ClientError e))
      # (put_request lg ls \<lparr>timestamp = time_ms w, message = dumps py (JObject msg)\<rparr>
          (Some (token_of_message (Error_Message e))), out) # rest"
proof -
  let ?ev = "\<lparr>timestamp = time_ms w, message = dumps py (JObject msg)\<rparr>"
  obtain res :: "'n exn + string option" and attempts wz where
    l: "send_loop client lg ls ?ev (Some (token_of_message (Error_Message e))) 2 w' =
          (res, attempts, wz)"
    by (metis prod_cases3)
  from send_loop_head [where client = client and 'n = 'n, OF _ c1, of 2] l
  obtain rest where "attempts =
      (put_request lg ls ?ev (Some (token_of_message (Error_Message e))), out) # rest"
    by auto
  with l show ?thesis
    by (simp add: send_event_first [OF assms(1)]
          send_loop_conflict [where client = client, OF _ c0 k])
qed

lemma second_attempt_accepted:
  fixes client :: "'w logs_client"
  assumes "msg \<noteq> []"
    and c0: "client w (put_request lg ls \<lparr>timestamp = time_ms w, message = dumps py (JObject msg)\<rparr>
        None) = (Inl (ClientError e), w')"
    and k: "Error_Code e \<in> set conflict_codes"
    and c1: "client w' (put_request lg ls \<lparr>timestamp = time_ms w, message = dumps py (JObject msg)\<rparr>
        (Some (token_of_message (Error_Message e)))) = (Inr u, w'')"
  shows "send_event_to_logstream client time_ms py lg ls msg w =
      (Inr (Some (delivered lg ls)),
       [(put_request lg ls \<lparr>timestamp = time_ms w, message = dumps py (JObject msg)\<rparr> None,
         Inl (ClientError e)),
        (put_request lg ls \<lparr>timestamp = time_ms w, message = dumps py (JObject msg)\<rparr>
          (Some (token_of_message (Error_Message e))), Inr u)], w'')"
  by (simp add: send_event_first [OF assms(1)]
        send_loop_conflict [where client = client, OF _ c0 k]
        send_loop_accepted [where client = client, OF _ c1])

lemma send_loop_once:
  fixes client :: "'w logs_client"
  assumes "client w (put_request lg ls event tok) = (out, w')"
  shows "\<exists>res. send_loop client lg ls event tok 1 w =
           (res :: 'n exn + string option, [(put_request lg ls event tok, out)], w')"
proof -
  obtain res :: "'n exn + string option" and attempts wz where
    l: "send_loop client lg ls event tok 1 w = (res, attempts, wz)"
    by (metis prod_cases3)
  from l have "attempts = [(put_request lg ls event tok, out)] \<and> wz = w'"
  proof (cases rule: send_loop_cases)
    case stop
    then show ?thesis by simp
  next
    case (final out')
    with assms show ?thesis by simp
  next
    case (retry e w1 rest)
    then show ?thesis by simp
  qed
  with l show ?thesis by simp
qed

lemma third_attempt:
  fixes client :: "'w logs_client"
  assumes "msg \<noteq> []"
    and c0: "client w (put_request lg ls \<lparr>timestamp = time_ms w, message = dumps py (JObject msg)\<rparr>
        None) = (Inl (ClientError e), w')"
    and k: "Error_Code e \<in> set conflict_codes"
    and c1: "client w' (put_request lg ls \<lparr>timestamp = time_ms w, message = dumps py (JObject msg)\<rparr>
        (Some (token_of_message (Error_Message e)))) = (Inl (ClientError e'), w'')"
    and k': "Error_Code e' \<in> set conflict_codes"
    and c2: "client w'' (put_request lg ls \<lparr>timestamp = time_ms w, message = dumps py (JObject msg)\<rparr>
        (Some (token_of_message (Error_Message e')))) = (out, w''')"
  shows "\<exists>res. send_event_to_logstream client time_ms py lg ls msg w =
      (res :: 'n exn + string option,
       [(put_request lg ls \<lparr>timestamp = time_ms w, message = dumps py (JObject msg)\<rparr> None,
         Inl (ClientError e)),
        (put_request lg ls \<lparr>timestamp = time_ms w, message = dumps py (JObject msg)\<rparr>
          (Some (token_of_message (Error_Message e))), Inl (ClientError e')),
        (put_request lg ls \<lparr>timestamp = time_ms w, message = dumps py (JObject msg)\<rparr>
          (Some (token_of_message (Error_Message e'))), out)], w''')"
proof -
  from send_loop_once [where client = client and 'n = 'n, OF c2]
  obtain res :: "'n exn + string option" where
    "send_loop client lg ls \<lparr>timestamp = time_ms w, message = dumps py (JObject msg)\<rparr>
       (Some (token_of_message (Error_Message e'))) 1 w'' =
     (res, [(put_request lg ls \<lparr>timestamp = time_ms w, message = dumps py (JObject msg)\<rparr>
          (Some (token_of_message (Error_Message e'))), out)], w''')"
    by blast
  then show ?thesis
    by (simp add: send_event_first [OF assms(1)]
          send_loop_conflict [where client = client, OF _ c0 k]
          send_loop_conflict [where client = client, OF _ c1 k'])
qed

text \<open>
  C2. For a message that is not empty, the first request goes to the service with no
  sequence token, whatever the service answers. When the service answers a request with
  one of the two recognized conflicts, and the token in the message of the conflict is a
  text that is not empty, the next request goes to the service, in the world that the
  conflict left, with exactly this token: after the first conflict (and the call returns
  its success when the second request is accepted), and after the second conflict. The
  token is what follows the last colon of the message, with the spaces around it dropped;
  for a message of the format of the service (free text, a colon, a space, the token) it
  is the token.
\<close>

theorem token_of_next_attempt:
  fixes client :: "'w logs_client" and py :: "'n py"
  defines "request lg ls ev t \<equiv>
    \<lparr>logGroupName = lg, logStreamName = ls, logEvents = [ev], sequenceToken = t\<rparr>"
  assumes "msg \<noteq> []"
  shows
   "(\<forall>out w'. client w (request log_group log_stream
        \<lparr>timestamp = time_ms w, message = dumps py (JObject msg)\<rparr> None) = (out, w') \<longrightarrow>
      (\<exists>rest. fst (snd (send_event_to_logstream client time_ms py log_group log_stream msg w
          :: ('n exn + string option) \<times> attempt list \<times> 'w)) =
        (request log_group log_stream
           \<lparr>timestamp = time_ms w, message = dumps py (JObject msg)\<rparr> None, out) # rest)) \<and>
    (\<forall>e w' out w''.
      client w (request log_group log_stream
        \<lparr>timestamp = time_ms w, message = dumps py (JObject msg)\<rparr> None) =
        (Inl (ClientError e), w') \<longrightarrow>
      Error_Code e \<in> set conflict_codes \<longrightarrow>
      token_of_message (Error_Message e) \<noteq> [] \<longrightarrow>
      client w' (request log_group log_stream
        \<lparr>timestamp = time_ms w, message = dumps py (JObject msg)\<rparr>
        (Some (token_of_message (Error_Message e)))) = (out, w'') \<longrightarrow>
      (\<exists>rest. fst (snd (send_event_to_logstream client time_ms py log_group log_stream msg w
          :: ('n exn + string option) \<times> attempt list \<times> 'w)) =
        (request log_group log_stream
           \<lparr>timestamp = time_ms w, message = dumps py (JObject msg)\<rparr> None,
         Inl (ClientError e))
        # (request log_group log_stream
             \<lparr>timestamp = time_ms w, message = dumps py (JObject msg)\<rparr>
             (Some (token_of_message (Error_Message e))), out) # rest)) \<and>
    (\<forall>e w' u w''.
      client w (request log_group log_stream
        \<lparr>timestamp = time_ms w, message = dumps py (JObject msg)\<rparr> None) =
        (Inl (ClientError e), w') \<longrightarrow>
      Error_Code e \<in> set conflict_codes \<longrightarrow>
      token_of_message (Error_Message e) \<noteq> [] \<longrightarrow>
      client w' (request log_group log_stream
        \<lparr>timestamp = time_ms w, message = dumps py (JObject msg)\<rparr>
        (Some (token_of_message (Error_Message e)))) = (Inr u, w'') \<longrightarrow>
      send_event_to_logstream client time_ms py log_group log_stream msg w =
        (Inr (Some (delivered log_group log_stream)) :: 'n exn + string option,
         [(request log_group log_stream
             \<lparr>timestamp = time_ms w, message = dumps py (JObject msg)\<rparr> None,
           Inl (ClientError e)),
          (request log_group log_stream
             \<lparr>timestamp = time_ms w, message = dumps py (JObject msg)\<rparr>
             (Some (token_of_message (Error_Message e))), Inr u)],
         w'')) \<and>
    (\<forall>e w' e' w'' out w'''.
      client w (request log_group log_stream
        \<lparr>timestamp = time_ms w, message = dumps py (JObject msg)\<rparr> None) =
        (Inl (ClientError e), w') \<longrightarrow>
      Error_Code e \<in> set conflict_codes \<longrightarrow>
      token_of_message (Error_Message e) \<noteq> [] \<longrightarrow>
      client w' (request log_group log_stream
        \<lparr>timestamp = time_ms w, message = dumps py (JObject msg)\<rparr>
        (Some (token_of_message (Error_Message e)))) = (Inl (ClientError e'), w'') \<longrightarrow>
      Error_Code e' \<in> set conflict_codes \<longrightarrow>
      token_of_message (Error_Message e') \<noteq> [] \<longrightarrow>
      client w'' (request log_group log_stream
        \<lparr>timestamp = time_ms w, message = dumps py (JObject msg)\<rparr>
        (Some (token_of_message (Error_Message e')))) = (out, w''') \<longrightarrow>
      (\<exists>res. send_event_to_logstream client time_ms py log_group log_stream msg w =
          (res :: 'n exn + string option,
           [(request log_group log_stream
               \<lparr>timestamp = time_ms w, message = dumps py (JObject msg)\<rparr> None,
             Inl (ClientError e)),
            (request log_group log_stream
               \<lparr>timestamp = time_ms w, message = dumps py (JObject msg)\<rparr>
               (Some (token_of_message (Error_Message e))), Inl (ClientError e')),
            (request log_group log_stream
               \<lparr>timestamp = time_ms w, message = dumps py (JObject msg)\<rparr>
               (Some (token_of_message (Error_Message e'))), out)],
           w'''))) \<and>
    (\<forall>m. token_of_message m =
       strip CHR '' '' (rev (takeWhile (\<lambda>x. x \<noteq> CHR '':'') (rev m)))) \<and>
    (\<forall>text token. token \<noteq> [] \<longrightarrow> CHR '':'' \<notin> set token \<longrightarrow>
       hd token \<noteq> CHR '' '' \<longrightarrow> last token \<noteq> CHR '' '' \<longrightarrow>
       token_of_message (text @ '': '' @ token) = token)"
  apply (intro conjI allI impI)
  subgoal for out w'
    using first_attempt [where client = client and 'n = 'n, OF assms(2), of w log_group
      log_stream time_ms py out w']
    by (simp add: request_def put_request_token)
  subgoal for e w' out w''
    using second_attempt [where client = client and 'n = 'n, OF assms(2), of w log_group
      log_stream time_ms py e w' out w'']
    by (simp add: request_def put_request_token)
  subgoal for e w' u w''
    using second_attempt_accepted [where client = client, OF assms(2), of w
      log_group log_stream time_ms py e w' u w'']
    by (simp add: request_def put_request_token)
  subgoal for e w' e' w'' out wz
    using third_attempt [where client = client and 'n = 'n, OF assms(2), of w log_group
      log_stream time_ms py e w' e' w'' out wz]
    by (simp add: request_def put_request_token)
  subgoal for m
    by (simp add: token_of_message_def last_split)
  subgoal for prefix token
    by (rule token_of_format)
  done

text \<open>A first conflict with the token \<open>abc123\<close>: the second attempt carries \<open>abc123\<close>.\<close>

theorem token_of_next_attempt_witness:
  "send_event_to_logstream scripted_logs fst example_py ''g'' ''s'' example_message
     one_conflict =
   (Inr (Some (delivered ''g'' ''s'')),
    [(\<lparr>logGroupName = ''g'', logStreamName = ''s'',
       logEvents = [\<lparr>timestamp = 1000, message = ''k=v;''\<rparr>], sequenceToken = None\<rparr>,
      invalid_token ''abc123''),
     (\<lparr>logGroupName = ''g'', logStreamName = ''s'',
       logEvents = [\<lparr>timestamp = 1000, message = ''k=v;''\<rparr>],
       sequenceToken = Some ''abc123''\<rparr>,
      Inr ())],
    (1002, []))"
proof -
  have ne: "example_message \<noteq> []" by (simp add: example_message_def)
  have t: "token_of_message (Error_Message (token_error ''abc123'')) = ''abc123''"
    by (simp add: token_of_token_error)
  have c0: "scripted_logs one_conflict
      \<lparr>logGroupName = ''g'', logStreamName = ''s'',
       logEvents = [\<lparr>timestamp = fst one_conflict,
                     message = dumps example_py (JObject example_message)\<rparr>],
       sequenceToken = None\<rparr> =
      (Inl (ClientError (token_error ''abc123'')), (1001, []))"
    by (simp add: one_conflict_def scripted_logs_next invalid_token_def)
  have c1: "scripted_logs (1001, [])
      \<lparr>logGroupName = ''g'', logStreamName = ''s'',
       logEvents = [\<lparr>timestamp = fst one_conflict,
                     message = dumps example_py (JObject example_message)\<rparr>],
       sequenceToken = Some (token_of_message (Error_Message (token_error ''abc123'')))\<rparr> =
      (Inr (), (1002, []))"
    by (simp add: scripted_logs_done)
  have n: "token_of_message (Error_Message (token_error ''abc123'')) \<noteq> []"
    by (simp add: t)
  note accepted = token_of_next_attempt
    [where client = scripted_logs and time_ms = fst and py = example_py
       and log_group = "''g''" and log_stream = "''s''" and w = one_conflict,
     OF ne, THEN conjunct2, THEN conjunct2, THEN conjunct1, rule_format,
     OF c0 token_error_conflict n c1]
  then show ?thesis
    by (simp add: t example_dumps one_conflict_def invalid_token_def)
qed

text \<open>
  A conflict whose message ends with its last colon is not of the format of the service:
  the text after the colon is empty, and the attempt that follows carries no token.
\<close>

lemma empty_token_run:
  "send_event_to_logstream scripted_logs fst example_py ''g'' ''s'' example_message
     empty_token_conflict =
   (Inr (Some (delivered ''g'' ''s'')),
    [(put_request ''g'' ''s'' example_event None,
      refusal ''DataAlreadyAcceptedException'' ''The next batch can be sent with sequenceToken:''),
     (put_request ''g'' ''s'' example_event None, Inr ())],
    (1002, []))"
  by code_simp

lemma unrecognized_first:
  fixes client :: "'w logs_client"
  assumes "msg \<noteq> []"
    and c0: "client w (put_request lg ls \<lparr>timestamp = time_ms w, message = dumps py (JObject msg)\<rparr>
        None) = (Inl (ClientError e), w')"
    and k: "Error_Code e \<notin> set conflict_codes"
  shows "send_event_to_logstream client time_ms py lg ls msg w =
      (Inl (HandledError (JString (''Unexpected response from boto client: '' @ error_str e))
              (Some 500)),
       [(put_request lg ls \<lparr>timestamp = time_ms w, message = dumps py (JObject msg)\<rparr> None,
         Inl (ClientError e))], w')"
  by (simp add: send_event_first [OF assms(1)]
        send_loop_unrecognized [where client = client, OF _ c0 k])

lemma unrecognized_second:
  fixes client :: "'w logs_client"
  assumes "msg \<noteq> []"
    and c0: "client w (put_request lg ls \<lparr>timestamp = time_ms w, message = dumps py (JObject msg)\<rparr>
        None) = (Inl (ClientError e), w')"
    and k: "Error_Code e \<in> set conflict_codes"
    and c1: "client w' (put_request lg ls \<lparr>timestamp = time_ms w, message = dumps py (JObject msg)\<rparr>
        (Some (token_of_message (Error_Message e)))) = (Inl (ClientError e'), w'')"
    and k': "Error_Code e' \<notin> set conflict_codes"
  shows "send_event_to_logstream client time_ms py lg ls msg w =
      (Inl (HandledError (JString (''Unexpected response from boto client: '' @ error_str e'))
              (Some 500)),
       [(put_request lg ls \<lparr>timestamp = time_ms w, message = dumps py (JObject msg)\<rparr> None,
         Inl (ClientError e)),
        (put_request lg ls \<lparr>timestamp = time_ms w, message = dumps py (JObject msg)\<rparr>
          (Some (token_of_message (Error_Message e))), Inl (ClientError e'))], w'')"
  by (simp add: send_event_first [OF assms(1)]
        send_loop_conflict [where client = client, OF _ c0 k]
        send_loop_unrecognized [where client = client, OF _ c1 k'])

lemma unrecognized_third:
  fixes client :: "'w logs_client"
  assumes "msg \<noteq> []"
    and c0: "client w (put_request lg ls \<lparr>timestamp = time_ms w, message = dumps py (JObject msg)\<rparr>
        None) = (Inl (ClientError e), w')"
    and k: "Error_Code e \<in> set conflict_codes"
    and c1: "client w' (put_request lg ls \<lparr>timestamp = time_ms w, message = dumps py (JObject msg)\<rparr>
        (Some (token_of_message (Error_Message e)))) = (Inl (ClientError e'), w'')"
    and k': "Error_Code e' \<in> set conflict_codes"
    and c2: "client w'' (put_request lg ls \<lparr>timestamp = time_ms w, message = dumps py (JObject msg)\<rparr>
        (Some (token_of_message (Error_Message e')))) = (Inl (ClientError e''), wz)"
    and k'': "Error_Code e'' \<notin> set conflict_codes"
  shows "send_event_to_logstream client time_ms py lg ls msg w =
      (Inl (HandledError (JString (''Unexpected response from boto client: '' @ error_str e''))
              (Some 500)),
       [(put_request lg ls \<lparr>timestamp = time_ms w, message = dumps py (JObject msg)\<rparr> None,
         Inl (ClientError e)),
        (put_request lg ls \<lparr>timestamp = time_ms w, message = dumps py (JObject msg)\<rparr>
          (Some (token_of_message (Error_Message e))), Inl (ClientError e')),
        (put_request lg ls \<lparr>timestamp = time_ms w, message = dumps py (JObject msg)\<rparr>
          (Some (token_of_message (Error_Message e'))), Inl (ClientError e''))], wz)"
  by (simp add: send_event_first [OF assms(1)]
        send_loop_conflict [where client = client, OF _ c0 k]
        send_loop_conflict [where client = client, OF _ c1 k']
        send_loop_unrecognized [where client = client, OF _ c2 k''])

lemma unrecognized_any:
  fixes client :: "'w logs_client" and py :: "'n py"
  assumes "i < length (fst (snd (send_event_to_logstream client time_ms py lg ls msg w
          :: ('n exn + string option) \<times> attempt list \<times> 'w)))"
    and "snd (fst (snd (send_event_to_logstream client time_ms py lg ls msg w
          :: ('n exn + string option) \<times> attempt list \<times> 'w)) ! i) = Inl (ClientError e)"
    and "Error_Code e \<notin> set conflict_codes"
  shows "Suc i = length (fst (snd (send_event_to_logstream client time_ms py lg ls msg w
          :: ('n exn + string option) \<times> attempt list \<times> 'w))) \<and>
    fst (send_event_to_logstream client time_ms py lg ls msg w
          :: ('n exn + string option) \<times> attempt list \<times> 'w) =
      Inl (HandledError (JString (''Unexpected response from boto client: '' @ error_str e))
             (Some 500))"
proof -
  obtain res :: "'n exn + string option" and attempts w' where
    r: "send_event_to_logstream client time_ms py lg ls msg w = (res, attempts, w')"
    by (metis prod_cases3)
  with assms(1) have "attempts \<noteq> []" by auto
  then have "send_loop client lg ls
       \<lparr>timestamp = time_ms w, message = dumps py (JObject msg)\<rparr> None 3 w = (res, attempts, w')"
    by (intro send_event_loop [OF r]) simp
  from send_loop_fatal [OF this, rule_format, of i e] assms r show ?thesis by simp
qed

text \<open>
  C4. For a message that is not empty: when the service answers a request of the call (the
  first one; the second one, after a conflict; the third one, after two conflicts) with a
  \<open>ClientError\<close> whose code is none of the two recognized conflicts, the call fails with a
  \<open>HandledError\<close> of status 500 whose message ends with the text of this error; the
  requests made are the ones up to this one, and the world is the one this answer leaves.
  In the list of attempts of any call, an attempt so answered is the last one.
\<close>

theorem unrecognized_error_is_fatal:
  fixes client :: "'w logs_client" and py :: "'n py"
  defines "request lg ls ev t \<equiv>
    \<lparr>logGroupName = lg, logStreamName = ls, logEvents = [ev], sequenceToken = t\<rparr>"
    and "next_token e \<equiv>
      (if token_of_message (Error_Message e) = [] then None
       else Some (token_of_message (Error_Message e)))"
    and "fatal e \<equiv>
      (Inl (HandledError (JString (''Unexpected response from boto client: '' @ error_str e))
         (Some 500)) :: 'n exn + string option)"
  assumes "msg \<noteq> []"
  shows
   "(\<forall>e w'.
      client w (request log_group log_stream
        \<lparr>timestamp = time_ms w, message = dumps py (JObject msg)\<rparr> None) =
        (Inl (ClientError e), w') \<longrightarrow>
      Error_Code e \<notin> set conflict_codes \<longrightarrow>
      send_event_to_logstream client time_ms py log_group log_stream msg w =
        (fatal e,
         [(request log_group log_stream
             \<lparr>timestamp = time_ms w, message = dumps py (JObject msg)\<rparr> None,
           Inl (ClientError e))],
         w')) \<and>
    (\<forall>e w' e' w''.
      client w (request log_group log_stream
        \<lparr>timestamp = time_ms w, message = dumps py (JObject msg)\<rparr> None) =
        (Inl (ClientError e), w') \<longrightarrow>
      Error_Code e \<in> set conflict_codes \<longrightarrow>
      client w' (request log_group log_stream
        \<lparr>timestamp = time_ms w, message = dumps py (JObject msg)\<rparr> (next_token e)) =
        (Inl (ClientError e'), w'') \<longrightarrow>
      Error_Code e' \<notin> set conflict_codes \<longrightarrow>
      send_event_to_logstream client time_ms py log_group log_stream msg w =
        (fatal e',
         [(request log_group log_stream
             \<lparr>timestamp = time_ms w, message = dumps py (JObject msg)\<rparr> None,
           Inl (ClientError e)),
          (request log_group log_stream
             \<lparr>timestamp = time_ms w, message = dumps py (JObject msg)\<rparr> (next_token e),
           Inl (ClientError e'))],
         w'')) \<and>
    (\<forall>e w' e' w'' e'' w'''.
      client w (request log_group log_stream
        \<lparr>timestamp = time_ms w, message = dumps py (JObject msg)\<rparr> None) =
        (Inl (ClientError e), w') \<longrightarrow>
      Error_Code e \<in> set conflict_codes \<longrightarrow>
      client w' (request log_group log_stream
        \<lparr>timestamp = time_ms w, message = dumps py (JObject msg)\<rparr> (next_token e)) =
        (Inl (ClientError e'), w'') \<longrightarrow>
      Error_Code e' \<in> set conflict_codes \<longrightarrow>
      client w'' (request log_group log_stream
        \<lparr>timestamp = time_ms w, message = dumps py (JObject msg)\<rparr> (next_token e')) =
        (Inl (ClientError e''), w''') \<longrightarrow>
      Error_Code e'' \<notin> set conflict_codes \<longrightarrow>
      send_event_to_logstream client time_ms py log_group log_stream msg w =
        (fatal e'',
         [(request log_group log_stream
             \<lparr>timestamp = time_ms w, message = dumps py (JObject msg)\<rparr> None,
           Inl (ClientError e)),
          (request log_group log_stream
             \<lparr>timestamp = time_ms w, message = dumps py (JObject msg)\<rparr> (next_token e),
           Inl (ClientError e')),
          (request log_group log_stream
             \<lparr>timestamp = time_ms w, message = dumps py (JObject msg)\<rparr> (next_token e'),
           Inl (ClientError e''))],
         w''')) \<and>
    (\<forall>i e.
      i < length (fst (snd (send_event_to_logstream client time_ms py log_group log_stream
            msg w :: ('n exn + string option) \<times> attempt list \<times> 'w))) \<longrightarrow>
      snd (fst (snd (send_event_to_logstream client time_ms py log_group log_stream
            msg w :: ('n exn + string option) \<times> attempt list \<times> 'w)) ! i) =
        Inl (ClientError e) \<longrightarrow>
      Error_Code e \<notin> set conflict_codes \<longrightarrow>
      Suc i = length (fst (snd (send_event_to_logstream client time_ms py log_group log_stream
            msg w :: ('n exn + string option) \<times> attempt list \<times> 'w))) \<and>
      fst (send_event_to_logstream client time_ms py log_group log_stream msg w) = fatal e)"
  apply (intro conjI allI impI)
  subgoal for e w'
    using unrecognized_first [where client = client, OF assms(4), of w log_group
      log_stream time_ms py e w']
    by (simp add: request_def fatal_def put_request_token)
  subgoal for e w' e' w''
    using unrecognized_second [where client = client, OF assms(4), of w log_group
      log_stream time_ms py e w' e' w'']
    by (simp add: request_def next_token_def fatal_def put_request_token)
  subgoal for e w' e' w'' e'' wz
    using unrecognized_third [where client = client, OF assms(4), of w log_group
      log_stream time_ms py e w' e' w'' e'' wz]
    by (simp add: request_def next_token_def fatal_def put_request_token)
  subgoal for i e
    using unrecognized_any [where client = client and 'n = 'n, of i time_ms py log_group
      log_stream msg w e]
    by (simp add: fatal_def)
  subgoal for i e
    using unrecognized_any [where client = client and 'n = 'n, of i time_ms py log_group
      log_stream msg w e]
    by (simp add: fatal_def)
  done

text \<open>A conflict, then a refusal for missing rights: two attempts, and status 500.\<close>

theorem unrecognized_error_is_fatal_witness:
  "send_event_to_logstream scripted_logs fst example_py ''g'' ''s'' example_message
     conflict_then_denied =
   (Inl (HandledError (JString (''Unexpected response from boto client: '' @
      error_str (service_error ''AccessDeniedException'' ''not authorized''))) (Some 500)),
    [(\<lparr>logGroupName = ''g'', logStreamName = ''s'',
       logEvents = [\<lparr>timestamp = 1000, message = ''k=v;''\<rparr>], sequenceToken = None\<rparr>,
      invalid_token ''t1''),
     (\<lparr>logGroupName = ''g'', logStreamName = ''s'',
       logEvents = [\<lparr>timestamp = 1000, message = ''k=v;''\<rparr>], sequenceToken = Some ''t1''\<rparr>,
      refusal ''AccessDeniedException'' ''not authorized'')],
    (1002, [])) \<and>
   error_str (service_error ''AccessDeniedException'' ''not authorized'') =
     ''An error occurred (AccessDeniedException) when calling the PutLogEvents operation: not authorized''"
proof -
  have ne: "example_message \<noteq> []" by (simp add: example_message_def)
  have t: "token_of_message (Error_Message (token_error ''t1'')) = ''t1''"
    by (simp add: token_of_token_error)
  have c0: "scripted_logs conflict_then_denied
      \<lparr>logGroupName = ''g'', logStreamName = ''s'',
       logEvents = [\<lparr>timestamp = fst conflict_then_denied,
                     message = dumps example_py (JObject example_message)\<rparr>],
       sequenceToken = None\<rparr> =
      (Inl (ClientError (token_error ''t1'')),
       (1001, [refusal ''AccessDeniedException'' ''not authorized'']))"
    by (simp add: conflict_then_denied_def scripted_logs_next invalid_token_def)
  have c1: "scripted_logs (1001, [refusal ''AccessDeniedException'' ''not authorized''])
      \<lparr>logGroupName = ''g'', logStreamName = ''s'',
       logEvents = [\<lparr>timestamp = fst conflict_then_denied,
                     message = dumps example_py (JObject example_message)\<rparr>],
       sequenceToken =
         (if token_of_message (Error_Message (token_error ''t1'')) = [] then None
          else Some (token_of_message (Error_Message (token_error ''t1''))))\<rparr> =
      (Inl (ClientError (service_error ''AccessDeniedException'' ''not authorized'')),
       (1002, []))"
    by (simp add: scripted_logs_next refusal_def)
  have k: "Error_Code (service_error ''AccessDeniedException'' ''not authorized'')
      \<notin> set conflict_codes"
    by (simp add: service_error_def conflict_codes_def)
  note denied = unrecognized_error_is_fatal
    [where client = scripted_logs and time_ms = fst and py = example_py
       and log_group = "''g''" and log_stream = "''s''" and w = conflict_then_denied,
     OF ne, THEN conjunct2, THEN conjunct1, rule_format,
     OF c0 token_error_conflict c1 k]
  then show ?thesis
    by (simp add: t example_dumps conflict_then_denied_def invalid_token_def refusal_def
          service_error_def)
qed

text \<open>
  C10. The record of a call (the timestamp read before the loop and the serialized
  message) is the same in every attempt of the call: with its sequence token erased, the
  request of each attempt is the request of the log group, the log stream and this one
  record. The world that the clock reads changes with every attempt; the record does not.
\<close>

theorem record_computed_once:
  fixes res :: "'n exn + string option"
  assumes "send_event_to_logstream client time_ms py log_group log_stream msg w =
             (res, attempts, w')"
    and "a \<in> set attempts"
  shows "fst a\<lparr>sequenceToken := None\<rparr> =
      \<lparr>logGroupName = log_group, logStreamName = log_stream,
       logEvents = [\<lparr>timestamp = time_ms w, message = dumps py (JObject msg)\<rparr>],
       sequenceToken = None\<rparr>"
proof -
  from assms have "send_loop client log_group log_stream
       \<lparr>timestamp = time_ms w, message = dumps py (JObject msg)\<rparr> None 3 w = (res, attempts, w')"
    by (intro send_event_loop) auto
  from send_loop_requests [OF this] assms(2) show ?thesis
    by (cases "fst a") auto
qed

text \<open>
  Two conflicts, then success: the third attempt still carries the timestamp 1000, when
  the clock of the world has reached 1003.
\<close>

lemma two_conflicts_run:
  "send_event_to_logstream scripted_logs fst example_py ''g'' ''s'' example_message two_conflicts =
   (Inr (Some (delivered ''g'' ''s'')),
    [(put_request ''g'' ''s'' example_event None, invalid_token ''t1''),
     (put_request ''g'' ''s'' example_event (Some ''t1''), invalid_token ''t2''),
     (put_request ''g'' ''s'' example_event (Some ''t2''), Inr ())],
    (1003, []))"
  by code_simp

theorem record_computed_once_witness:
  "logEvents (fst (fst (snd (send_event_to_logstream scripted_logs fst example_py ''g'' ''s''
      example_message two_conflicts)) ! 2)) = [\<lparr>timestamp = 1000, message = ''k=v;''\<rparr>] \<and>
   fst (snd (snd (send_event_to_logstream scripted_logs fst example_py ''g'' ''s''
      example_message two_conflicts))) = 1003"
proof -
  have m: "(put_request ''g'' ''s'' example_event (Some ''t2''), Inr ()) \<in> set
    [(put_request ''g'' ''s'' example_event None, invalid_token ''t1''),
     (put_request ''g'' ''s'' example_event (Some ''t1''), invalid_token ''t2''),
     (put_request ''g'' ''s'' example_event (Some ''t2''), Inr ())]" by simp
  have d: "dumps example_py (JObject example_message) = ''k=v;''"
    by code_simp
  from record_computed_once [OF two_conflicts_run m] d show ?thesis
    by (simp add: two_conflicts_run put_request_def example_event_def)
qed

section \<open>The single-call helpers\<close>

text \<open>
  C5. When \<open>sns.publish\<close> returns an acknowledgment with no \<open>"MessageId"\<close>,
  \<open>publish_to_sns_topic\<close> raises \<open>SystemExit\<close>, the exception that ends the process: it
  returns no value and raises no \<open>HandledError\<close>. When the identifier is there, the
  function returns a response whose payload is the identifier.
\<close>

theorem missing_message_id_exits:
  assumes "sns w \<lparr>TopicArn = sns_topic, Message = dumps py content, Subject = subject\<rparr> =
             (Inr sns_response, w')"
  shows "(map_of sns_response ''MessageId'' = None \<longrightarrow>
            publish_to_sns_topic sns py sns_topic subject content w =
              (Inl (SystemExit ''Missing MessageId in SNS response''),
               [\<lparr>TopicArn = sns_topic, Message = dumps py content, Subject = subject\<rparr>], w')) \<and>
         (\<forall>message_id. map_of sns_response ''MessageId'' = Some message_id \<longrightarrow>
            publish_to_sns_topic sns py sns_topic subject content w =
              (Inr (put Response_new message_id),
               [\<lparr>TopicArn = sns_topic, Message = dumps py content, Subject = subject\<rparr>], w') \<and>
            payload (put Response_new message_id :: 'n Response) = Some message_id)"
  using assms by (simp add: publish_to_sns_topic_def put_def)

text \<open>An acknowledgment without the identifier, and one with the identifier \<open>id-1\<close>.\<close>

theorem missing_message_id_exits_witness:
  "publish_to_sns_topic (answering (Inr [(''ResponseMetadata'', JObject [])])) example_py
      ''arn:aws:sns:topic'' ''subject'' (JObject example_message) 0 =
     (Inl (SystemExit ''Missing MessageId in SNS response''),
      [\<lparr>TopicArn = ''arn:aws:sns:topic'', Message = ''k=v;'', Subject = ''subject''\<rparr>], 1) \<and>
   publish_to_sns_topic (answering (Inr [(''MessageId'', JString ''id-1'')])) example_py
      ''arn:aws:sns:topic'' ''subject'' (JObject example_message) 0 =
     (Inr \<lparr>payload = Some (JString ''id-1''), error_payload = None, status_code = 200\<rparr>,
      [\<lparr>TopicArn = ''arn:aws:sns:topic'', Message = ''k=v;'', Subject = ''subject''\<rparr>], 1)"
proof -
  have d: "dumps example_py (JObject example_message) = ''k=v;''" by code_simp
  have a: "answering (Inr [(''ResponseMetadata'', JObject [])]) (0 :: nat)
      \<lparr>TopicArn = ''arn:aws:sns:topic'', Message = dumps example_py (JObject example_message),
        Subject = ''subject''\<rparr> =
      (Inr [(''ResponseMetadata'', JObject [])] :: client_exn + (string \<times> nat json) list, 1)"
    by (simp add: answering_def)
  have b: "answering (Inr [(''MessageId'', JString ''id-1'')]) (0 :: nat)
      \<lparr>TopicArn = ''arn:aws:sns:topic'', Message = dumps example_py (JObject example_message),
        Subject = ''subject''\<rparr> =
      (Inr [(''MessageId'', JString ''id-1'')] :: client_exn + (string \<times> nat json) list, 1)"
    by (simp add: answering_def)
  note absent = missing_message_id_exits
    [where sns = "answering (Inr [(''ResponseMetadata'', JObject [])])" and w = 0
       and py = example_py and content = "JObject example_message", OF a, THEN conjunct1]
  note present = missing_message_id_exits
    [where sns = "answering (Inr [(''MessageId'', JString ''id-1'')])" and w = 0
       and py = example_py and content = "JObject example_message", OF b, THEN conjunct2,
     rule_format, of "JString ''id-1''"]
  from absent present show ?thesis by (simp add: d put_def Response_new_def)
qed

text \<open>
  C7. \<open>get_object_from_s3_bucket\<close>: a \<open>ClientError\<close> of code \<open>NoSuchKey\<close> becomes a
  \<open>HandledError\<close> of status 404; every other exception of the client is raised again as
  it is; when the client returns, the function returns the body of the response as it is.
\<close>

theorem get_object_outcomes:
  fixes client :: "('w, 'b) s3_client"
  shows "(\<forall>e w'. client w \<lparr>Bucket = bucket, Key = key\<rparr> = (Inl (ClientError e), w') \<longrightarrow>
            Error_Code e = ''NoSuchKey'' \<longrightarrow>
            get_object_from_s3_bucket client key bucket w =
              (Inl (HandledError (JString (''Key '' @ key @ '' not found in bucket '' @ bucket))
                      (Some 404) :: 'n exn),
               [\<lparr>Bucket = bucket, Key = key\<rparr>], w')) \<and>
         (\<forall>x w'. client w \<lparr>Bucket = bucket, Key = key\<rparr> = (Inl x, w') \<longrightarrow>
            (\<forall>e. x = ClientError e \<longrightarrow> Error_Code e \<noteq> ''NoSuchKey'') \<longrightarrow>
            get_object_from_s3_bucket client key bucket w =
              (Inl (Raised x :: 'n exn), [\<lparr>Bucket = bucket, Key = key\<rparr>], w')) \<and>
         (\<forall>response w'. client w \<lparr>Bucket = bucket, Key = key\<rparr> = (Inr response, w') \<longrightarrow>
            get_object_from_s3_bucket client key bucket w =
              (Inr (Body response) :: 'n exn + 'b, [\<lparr>Bucket = bucket, Key = key\<rparr>], w'))"
  by (auto simp: get_object_from_s3_bucket_def Let_def split: client_exn.splits)

text \<open>A missing key, an unreachable endpoint and a stored object.\<close>

theorem get_object_outcomes_witness:
  "get_object_from_s3_bucket
      (answering (Inl (ClientError \<lparr>Error_Code = ''NoSuchKey'',
         Error_Message = ''The specified key does not exist.'', error_str = ''NoSuchKey''\<rparr>)
         :: client_exn + string get_object_response)) ''k'' ''b'' 0 =
     (Inl (HandledError (JString ''Key k not found in bucket b'') (Some 404) :: nat exn),
      [\<lparr>Bucket = ''b'', Key = ''k''\<rparr>], 1) \<and>
   get_object_from_s3_bucket
      (answering (Inl (OtherException ''EndpointConnectionError'')
         :: client_exn + string get_object_response)) ''k'' ''b'' 0 =
     (Inl (Raised (OtherException ''EndpointConnectionError'') :: nat exn),
      [\<lparr>Bucket = ''b'', Key = ''k''\<rparr>], 1) \<and>
   get_object_from_s3_bucket
      (answering (Inr \<lparr>Body = ''bytes''\<rparr> :: client_exn + string get_object_response))
      ''k'' ''b'' 0 =
     (Inr ''bytes'' :: nat exn + string, [\<lparr>Bucket = ''b'', Key = ''k''\<rparr>], 1)"
proof -
  let ?missing = "\<lparr>Error_Code = ''NoSuchKey'',
         Error_Message = ''The specified key does not exist.'', error_str = ''NoSuchKey''\<rparr>"
  let ?a = "answering (Inl (ClientError ?missing) :: client_exn + string get_object_response)"
  let ?b = "answering (Inl (OtherException ''EndpointConnectionError'')
         :: client_exn + string get_object_response)"
  let ?c = "answering (Inr \<lparr>Body = ''bytes''\<rparr> :: client_exn + string get_object_response)"
  have a: "?a 0 \<lparr>Bucket = ''b'', Key = ''k''\<rparr> = (Inl (ClientError ?missing), 1)"
    and b: "?b 0 \<lparr>Bucket = ''b'', Key = ''k''\<rparr> = (Inl (OtherException ''EndpointConnectionError''), 1)"
    and c: "?c 0 \<lparr>Bucket = ''b'', Key = ''k''\<rparr> = (Inr \<lparr>Body = ''bytes''\<rparr>, 1)"
    by (simp_all add: answering_def)
  note t = get_object_outcomes [where 'n = nat and w = "0 :: nat" and bucket = "''b''" and key = "''k''"]
  from t [of ?a, THEN conjunct1, rule_format, OF a]
       t [of ?b, THEN conjunct2, THEN conjunct1, rule_format, OF b]
       t [of ?c, THEN conjunct2, THEN conjunct2, rule_format, OF c]
  show ?thesis by simp
qed

text \<open>
  C6, as the code has it. With a mode that is none of \<open>DryRun\<close>, \<open>RequestResponse\<close> and
  \<open>Event\<close>, \<open>invoke_lambda\<close> fails with a \<open>HandledError\<close> of status 400 before any call
  of the client. With one of the three modes, when the client returns a status code
  outside of the range from 200 to 299 and, in the two modes that read the payload, the
  payload deserializes, the function fails with a \<open>HandledError\<close> that carries this
  status code. The payload is read before the status code is tested.
\<close>

theorem invoke_lambda_failures:
  "(invoke_type \<notin> set [''DryRun'', ''RequestResponse'', ''Event''] \<longrightarrow>
      invoke_lambda client py name payload' invoke_type w =
        (Inl (HandledError (JString (''invalid invoke_type: '' @ invoke_type)) (Some 400)),
         [], w)) \<and>
   (\<forall>lambda_resp w'.
      invoke_type \<in> set [''DryRun'', ''RequestResponse'', ''Event''] \<longrightarrow>
      client w \<lparr>FunctionName = name, InvocationType = invoke_type,
                Payload = dumps py payload'\<rparr> = (Inr lambda_resp, w') \<longrightarrow>
      \<not> (200 \<le> StatusCode lambda_resp \<and> StatusCode lambda_resp < 300) \<longrightarrow>
      (invoke_type = ''Event'' \<or> (\<exists>p. loads py (PayloadStream lambda_resp) = Inr p)) \<longrightarrow>
      invoke_lambda client py name payload' invoke_type w =
        (Inl (HandledError (JString (''lambda response: '' @ resp_str lambda_resp))
                (Some (StatusCode lambda_resp))),
         [\<lparr>FunctionName = name, InvocationType = invoke_type, Payload = dumps py payload'\<rparr>],
         w'))"
  by (auto simp: invoke_lambda_def Let_def)

text \<open>The mode \<open>Bogus\<close>, and a remote status 500 with a payload that deserializes.\<close>

theorem invoke_lambda_failures_witness:
  "invoke_lambda (answering (Inr sent_invocation)) example_py ''pushover'' JNull ''Bogus'' 0 =
     (Inl (HandledError (JString ''invalid invoke_type: Bogus'') (Some 400)), [], 0) \<and>
   invoke_lambda (answering (Inr failed_invocation)) example_py ''pushover'' JNull
      ''RequestResponse'' 0 =
     (Inl (HandledError (JString ''lambda response: {StatusCode: 500}'') (Some 500)),
      [\<lparr>FunctionName = ''pushover'', InvocationType = ''RequestResponse'', Payload = ''null''\<rparr>],
      1)"
proof -
  have d: "dumps example_py JNull = ''null''" by code_simp
  have l: "loads example_py (PayloadStream failed_invocation) = Inr (JString ''sent'')"
    by code_simp
  have a: "answering (Inr failed_invocation :: client_exn + lambda_resp) (0 :: nat)
      \<lparr>FunctionName = ''pushover'', InvocationType = ''RequestResponse'',
        Payload = dumps example_py JNull\<rparr> = (Inr failed_invocation, 1)"
    by (simp add: answering_def)
  have s: "\<not> (200 \<le> StatusCode failed_invocation \<and> StatusCode failed_invocation < 300)"
    by (simp add: failed_invocation_def)
  have r: "resp_str failed_invocation = ''{StatusCode: 500}''"
    "StatusCode failed_invocation = 500"
    by (simp_all add: failed_invocation_def)
  note bogus = invoke_lambda_failures
    [where invoke_type = "''Bogus''" and client = "answering (Inr sent_invocation)"
       and py = example_py and name = "''pushover''" and payload' = JNull and w = "0 :: nat",
     THEN conjunct1]
  note failed = invoke_lambda_failures
    [where invoke_type = "''RequestResponse''" and client = "answering (Inr failed_invocation)"
       and py = example_py and name = "''pushover''" and payload' = JNull and w = "0 :: nat",
     THEN conjunct2, rule_format, OF _ a s]
  from bogus failed l show ?thesis by (simp add: d r)
qed

text \<open>
  The claim as the spec states it fails in the mode \<open>RequestResponse\<close> for a remote
  status 500 with an empty payload: \<open>json.load\<close> raises before the status code is
  tested, and what leaves the function is the \<open>JSONDecodeError\<close>, no \<open>HandledError\<close>.
\<close>

theorem undecodable_payload_counterexample:
  "fst (invoke_lambda (answering (Inr failed_empty_invocation)) example_py ''pushover'' JNull
      ''RequestResponse'' 0) =
     Inl (JSONDecodeError ''Expecting value: line 1 column 1 (char 0)'') \<and>
   raised_status (fst (invoke_lambda (answering (Inr failed_empty_invocation)) example_py
      ''pushover'' JNull ''RequestResponse'' 0)) \<noteq>
     Some (Some (StatusCode failed_empty_invocation))"
  by code_simp

section \<open>The status codes of the raise sites\<close>

text \<open>What each function can raise, read off its result.\<close>

lemma raise_json_handled [simp]: "raise_json e \<noteq> HandledError m sc"
  by (cases e) simp_all

lemma invoke_lambda_status:
  assumes "fst (invoke_lambda client py name payload' invoke_type w) = Inl (HandledError m sc)"
  shows "(invoke_type \<notin> set [''DryRun'', ''RequestResponse'', ''Event''] \<and> sc = Some 400) \<or>
    (\<exists>lambda_resp w'. client w \<lparr>FunctionName = name, InvocationType = invoke_type,
        Payload = dumps py payload'\<rparr> = (Inr lambda_resp, w') \<and>
      sc = Some (StatusCode lambda_resp))"
  using assms
  by (auto simp: invoke_lambda_def Let_def split: if_splits prod.splits sum.splits)

lemma format_contact_raises:
  "format_contact py x = Inl e \<Longrightarrow> (\<exists>k. e = KeyError k) \<or> (\<exists>m. e = TypeError m)"
  by (auto simp: format_contact_def split: json.splits option.splits)

lemma contact_message_status:
  assumes "contact_message py body = Inl e"
  shows "(\<exists>m. e = HandledError m None) \<or> (\<exists>m. e = ValueError m) \<or> (\<exists>m. e = RecursionError m)"
proof (cases body)
  case None
  with assms show ?thesis by (auto simp: contact_message_def)
next
  case (Some b)
  show ?thesis
  proof (cases "loads py b")
    case (Inl t)
    with assms Some show ?thesis by (cases t) (auto simp: contact_message_def)
  next
    case (Inr x)
    show ?thesis
    proof (cases "format_contact py x")
      case (Inl e')
      from format_contact_raises [OF this] assms Some Inr Inl show ?thesis
        by (auto simp: contact_message_def)
    next
      case r: (Inr msg)
      with assms Some Inr show ?thesis by (simp add: contact_message_def)
    qed
  qed
qed

text \<open>
  What \<open>json.loads\<close> raises beside a \<open>JSONDecodeError\<close> is caught by neither handler of
  the \<open>try\<close> block.
\<close>

lemma contact_message_uncaught:
  "loads py b = Inl (PlainValue m) \<Longrightarrow> contact_message py (Some b) = Inl (ValueError m)"
  "loads py b = Inl (Recursion m) \<Longrightarrow> contact_message py (Some b) = Inl (RecursionError m)"
  by (simp_all add: contact_message_def)

lemma read_items_raises: "read_items py items = Inl e \<Longrightarrow> \<exists>m. e = ValueError m"
  by (induction items arbitrary: e) (auto split: sum.splits)

lemma get_object_status:
  assumes "fst (get_object_from_s3_bucket client key bucket w) = Inl (HandledError m sc)"
  shows "sc = Some 404"
  using assms
  by (auto simp: get_object_from_s3_bucket_def Let_def
           split: if_splits prod.splits sum.splits client_exn.splits)

lemma send_event_status:
  assumes "fst (send_event_to_logstream client time_ms py log_group log_stream msg w) =
             Inl (HandledError m sc)"
  shows "sc = Some 500"
proof (cases "msg = []")
  case True
  with assms show ?thesis by (simp add: send_event_to_logstream_def)
next
  case False
  obtain res :: "'a exn + string option" and attempts w' where
    r: "send_event_to_logstream client time_ms py log_group log_stream msg w = (res, attempts, w')"
    by (metis prod_cases3)
  from send_loop_status [OF send_event_loop [OF r]] False assms r show ?thesis by auto
qed

lemma pagespeed_status:
  assumes "fst (pagespeed_report scan py env ev w) = Inl (HandledError m sc)"
  shows "sc = Some 500 \<or> sc = Some 400 \<or>
    (\<exists>table. env ''PAGESPEED_TABLE'' = Some table \<and> fst (scan w table) = Inl (HandledError m sc))"
proof (cases "env ''PAGESPEED_TABLE''")
  case None
  with assms show ?thesis by (simp add: pagespeed_report_def)
next
  case (Some table)
  obtain out w' where s: "scan w table = (out, w')" by (cases "scan w table")
  show ?thesis
  proof (cases out)
    case (Inl e)
    with assms Some s show ?thesis by (simp add: pagespeed_report_def)
  next
    case (Inr data)
    show ?thesis
    proof (cases "read_items py (Items data)")
      case (Inl e)
      from read_items_raises [OF this] assms Some s Inr Inl show ?thesis
        by (auto simp: pagespeed_report_def split: if_splits)
    next
      case r: (Inr items)
      with assms Some s Inr show ?thesis
        by (auto simp: pagespeed_report_def split: if_splits)
    qed
  qed
qed

lemma contact_status:
  assumes "fst (contact client py text_of env ev w) = Inl (HandledError m sc)"
  shows "(sc = None \<and> contact_message py (event_body ev) = Inl (HandledError m None)) \<or>
    (\<exists>lambda_resp msg. contact_message py (event_body ev) = Inr msg \<and>
       fst (client w \<lparr>FunctionName = the (env ''LAMBDA_NOTIFICATIONS''),
              InvocationType = ''RequestResponse'',
              Payload = dumps py (JObject [(''title'', JString ''New /contact submission received''),
                                           (''payload'', JString msg)])\<rparr>) = Inr lambda_resp \<and>
       sc = Some (StatusCode lambda_resp))"
proof (cases "env ''LAMBDA_NOTIFICATIONS''")
  case None
  with assms show ?thesis by (simp add: contact_def)
next
  case (Some lambda_notifications)
  show ?thesis
  proof (cases "contact_message py (event_body ev)")
    case (Inl e)
    from contact_message_status [OF this] assms Some Inl show ?thesis
      by (auto simp: contact_def)
  next
    case (Inr msg)
    let ?pl = "JObject [(''title'', JString ''New /contact submission received''),
                        (''payload'', JString msg)]"
    from assms Some Inr
    have "fst (invoke_lambda client py lambda_notifications ?pl ''RequestResponse'' w) =
            Inl (HandledError m sc)"
      by (auto simp: contact_def split: prod.splits sum.splits)
    from invoke_lambda_status [OF this] Some Inr show ?thesis by auto
  qed
qed


lemma publish_status:
  "raised_status (fst (publish_to_sns_topic sns py sns_topic subject content w)) = None"
  by (auto simp: publish_to_sns_topic_def Let_def split: prod.splits sum.splits option.splits)

text \<open>
  C8, as the code has it. The raise sites of \<open>aws.py\<close> and of \<open>pagespeed_report\<close> pass
  an explicit status code: \<open>invoke_lambda\<close> 400 for an unknown mode and otherwise the
  status code of the remote response, \<open>send_event_to_logstream\<close> 500,
  \<open>get_object_from_s3_bucket\<close> 404, \<open>pagespeed_report\<close> 500 and 400 (a \<open>HandledError\<close>
  that \<open>scan_dynamodb_table\<close> raises passes through it); \<open>publish_to_sns_topic\<close> raises
  no \<open>HandledError\<close>. The two raise sites of \<open>contact\<close> (a body that is no JSON mapping,
  a missing key) pass no status code: whatever status these failures have is the default
  of \<open>HandledError\<close>. Any other \<open>HandledError\<close> of \<open>contact\<close> comes from \<open>invoke_lambda\<close>,
  with the status code of the remote response. What the \<open>try\<close> block of \<open>contact\<close>
  raises is one of its two \<open>HandledError\<close>s, or the plain \<open>ValueError\<close> or the
  \<open>RecursionError\<close> of \<open>json.loads\<close>, which it does not catch; the body \<open>None\<close>, a
  body that is no JSON and a mapping with no \<open>source\<close> reach the two raise sites.
\<close>

theorem explicit_status_codes:
  "(\<forall>m sc. fst (invoke_lambda client py name payload' invoke_type w) =
        Inl (HandledError m sc) \<longrightarrow>
      (invoke_type \<notin> set [''DryRun'', ''RequestResponse'', ''Event''] \<and> sc = Some 400) \<or>
      (\<exists>lambda_resp w'.
         client w \<lparr>FunctionName = name, InvocationType = invoke_type,
                   Payload = dumps py payload'\<rparr> = (Inr lambda_resp, w') \<and>
         sc = Some (StatusCode lambda_resp))) \<and>
   raised_status (fst (publish_to_sns_topic sns py sns_topic subject content nw)) = None \<and>
   (\<forall>m sc. fst (send_event_to_logstream logs time_ms py log_group log_stream msg lw) =
        Inl (HandledError m sc) \<longrightarrow> sc = Some 500) \<and>
   (\<forall>m sc. fst (get_object_from_s3_bucket s3 key bucket sw) =
        (Inl (HandledError m sc) :: 'n exn + 'b) \<longrightarrow> sc = Some 404) \<and>
   (\<forall>m sc. fst (pagespeed_report scan py env ev pw) = Inl (HandledError m sc) \<longrightarrow>
      sc = Some 500 \<or> sc = Some 400 \<or>
      (\<exists>table. env ''PAGESPEED_TABLE'' = Some table \<and>
         fst (scan pw table) = Inl (HandledError m sc))) \<and>
   (\<forall>m sc. fst (contact client py text_of env ev w) = Inl (HandledError m sc) \<longrightarrow>
      (sc = None \<and> contact_message py (event_body ev) = Inl (HandledError m None)) \<or>
      (\<exists>lambda_resp msg. contact_message py (event_body ev) = Inr msg \<and>
         fst (client w \<lparr>FunctionName = the (env ''LAMBDA_NOTIFICATIONS''),
                InvocationType = ''RequestResponse'',
                Payload = dumps py
                  (JObject [(''title'', JString ''New /contact submission received''),
                            (''payload'', JString msg)])\<rparr>) = Inr lambda_resp \<and>
         sc = Some (StatusCode lambda_resp))) \<and>
   (\<forall>e. contact_message py body = Inl e \<longrightarrow>
      (\<exists>m. e = HandledError m None) \<or> (\<exists>m. e = ValueError m) \<or> (\<exists>m. e = RecursionError m)) \<and>
   contact_message py None =
     Inl (HandledError (JString (''JSON body is malformatted: '' @
       ''the JSON object must be str, bytes or bytearray, not NoneType'')) None) \<and>
   (\<forall>b m. loads py b = Inl (Decode m) \<longrightarrow>
      contact_message py (Some b) =
        Inl (HandledError (JString (''JSON body is malformatted: '' @ m)) None)) \<and>
   (\<forall>b d. loads py b = Inr (JObject d) \<longrightarrow> map_of d ''source'' = None \<longrightarrow>
      contact_message py (Some b) =
        Inl (HandledError
          (JString (''Missing JSON key: '' @ [CHR 0x27] @ ''source'' @ [CHR 0x27])) None))"
  apply (intro conjI)
  subgoal using invoke_lambda_status [of client py name payload' invoke_type w] by blast
  subgoal by (rule publish_status)
  subgoal using send_event_status [of logs time_ms py log_group log_stream msg lw] by blast
  subgoal using get_object_status [of s3 key bucket sw] by blast
  subgoal using pagespeed_status [of scan py env ev pw] by blast
  subgoal using contact_status [of client py text_of env ev w] by blast
  subgoal using contact_message_status [of py body] by blast
  subgoal by (simp add: contact_message_def)
  subgoal by (simp add: contact_message_def)
  subgoal by (simp add: contact_message_def format_contact_def)
  done

text \<open>Two bodies that \<open>contact\<close> refuses: \<open>None\<close>, and a mapping with one key of four.\<close>

lemma null_body_run:
  "contact (answering (Inr sent_invocation)) example_py example_text example_env
      (contact_event None) 0 =
     (Inl (HandledError (JString (''JSON body is malformatted: '' @
        ''the JSON object must be str, bytes or bytearray, not NoneType'')) None), [], 0)"
  by code_simp

lemma missing_key_run:
  \<open>contact (answering (Inr sent_invocation)) example_py example_text example_env
      (contact_event (Some ''{"source":"web"}'')) 0 =
     (Inl (HandledError (JString (''Missing JSON key: '' @ [CHR 0x27] @ ''name'' @ [CHR 0x27]))
        None), [], 0)\<close>
  by code_simp

theorem explicit_status_codes_witness:
  "fst (contact (answering (Inr sent_invocation)) example_py example_text example_env
      (contact_event None) 0) =
     Inl (HandledError (JString (''JSON body is malformatted: '' @
        ''the JSON object must be str, bytes or bytearray, not NoneType'')) None) \<and>
   contact_message example_py None =
     Inl (HandledError (JString (''JSON body is malformatted: '' @
        ''the JSON object must be str, bytes or bytearray, not NoneType'')) None) \<and>
   fst (invoke_lambda (answering (Inr sent_invocation)) example_py ''pushover'' JNull
      ''Bogus'' 0) =
     Inl (HandledError (JString ''invalid invoke_type: Bogus'') (Some 400))"
proof -
  let ?m = "JString (''JSON body is malformatted: '' @
        ''the JSON object must be str, bytes or bytearray, not NoneType'') :: nat json"
  have c: "fst (contact (answering (Inr sent_invocation)) example_py example_text example_env
      (contact_event None) 0) = Inl (HandledError ?m None)"
    by (simp add: null_body_run)
  have b: "fst (invoke_lambda (answering (Inr sent_invocation)) example_py ''pushover'' JNull
      ''Bogus'' 0) = Inl (HandledError (JString ''invalid invoke_type: Bogus'') (Some 400))"
    by code_simp
  have n: "\<not> (\<exists>msg. contact_message example_py (event_body (contact_event None)) = Inr msg)"
    by (simp add: contact_message_def contact_event_def)
  note t = explicit_status_codes
    [where client = "answering (Inr sent_invocation)" and py = example_py
       and text_of = example_text and env = example_env and ev = "contact_event None"
       and w = "0 :: nat"]
  from t [THEN conjunct2, THEN conjunct2, THEN conjunct2, THEN conjunct2, THEN conjunct2,
          THEN conjunct1, rule_format, OF c] n
  have "contact_message example_py (event_body (contact_event None)) = Inl (HandledError ?m None)"
    by auto
  with c b show ?thesis by (simp add: contact_event_def)
qed

text \<open>
  The claim as the spec states it fails at both raise sites of \<open>contact\<close>: the
  \<open>HandledError\<close> is raised with a message and no status code.
\<close>

theorem default_status_counterexample:
  \<open>raised_status (fst (contact (answering (Inr sent_invocation)) example_py example_text
      example_env (contact_event None) 0)) = Some None \<and>
   raised_status (fst (contact (answering (Inr sent_invocation)) example_py example_text
      example_env (contact_event (Some ''{"source":"web"}'')) 0)) = Some None\<close>
  by (simp add: null_body_run missing_key_run)

section \<open>The contact handler, end to end\<close>

text \<open>
  With the four keys in the body, the \<open>try\<close> block of \<open>contact\<close> gives the message of
  four lines; the router sends an event \<open>POST /contact\<close> to \<open>contact\<close>; and \<open>contact\<close> is
  then the call of \<open>invoke_lambda\<close> in the mode \<open>RequestResponse\<close>.
\<close>

lemma contact_message_filled:
  assumes "loads py body = Inr (JObject d)"
    and "map_of d ''source'' = Some source" and "map_of d ''name'' = Some name"
    and "map_of d ''email'' = Some email" and "map_of d ''description'' = Some description"
  shows "contact_message py (Some body) =
    Inr (''Source: '' @ format_field py source @ [CHR 0x0A]
         @ ''Name: '' @ format_field py name @ [CHR 0x0A]
         @ ''Mail: '' @ format_field py email @ [CHR 0x0A]
         @ ''Desc: '' @ format_field py description @ [CHR 0x0A])"
  using assms by (simp add: contact_message_def format_contact_def)

lemma handler_contact:
  assumes "event_verb ev = ''POST''" and "event_path ev = ''/contact''"
  shows "handler aws py text_of env ev w =
    (case contact (lambda_invoke aws) py text_of env ev w of
       (Inr v, calls, w') \<Rightarrow> (Responded (success v), w')
     | (Inl (HandledError m sc), calls, w') \<Rightarrow> (Responded (failure m sc), w')
     | (Inl (SystemExit x), calls, w') \<Rightarrow> (Exited x, w')
     | (Inl _, calls, w') \<Rightarrow> (Responded failure_unexpected, w'))"
  using assms
  by (simp add: handler_def dispatch_def router_map_def split: prod.splits sum.splits exn.splits)

text \<open>With a message, \<open>contact\<close> is the call of \<open>invoke_lambda\<close> and the text of its response.\<close>

lemma contact_invokes:
  assumes "env ''LAMBDA_NOTIFICATIONS'' = Some lambda_notifications"
    and "contact_message py (event_body ev) = Inr msg"
  shows "contact client py text_of env ev w =
    (case invoke_lambda client py lambda_notifications
            (JObject [(''title'', JString ''New /contact submission received''),
                      (''payload'', JString msg)])
            ''RequestResponse'' w of
       (Inl e, calls, w') \<Rightarrow> (Inl e, calls, w')
     | (Inr response, calls, w') \<Rightarrow> (Inr (text_of response), calls, w'))"
  using assms by (simp add: contact_def)

lemma invoke_lambda_called:
  assumes "client w \<lparr>FunctionName = name, InvocationType = ''RequestResponse'',
             Payload = dumps py payload'\<rparr> = (out, w')"
  shows "fst (snd (invoke_lambda client py name payload' ''RequestResponse'' w)) =
      [\<lparr>FunctionName = name, InvocationType = ''RequestResponse'', Payload = dumps py payload'\<rparr>]
    \<and> snd (snd (invoke_lambda client py name payload' ''RequestResponse'' w)) = w'"
  using assms by (auto simp: invoke_lambda_def Let_def split: sum.splits)

lemma invoke_lambda_returns:
  assumes "client w \<lparr>FunctionName = name, InvocationType = ''RequestResponse'',
             Payload = dumps py payload'\<rparr> = (Inr lambda_resp, w')"
    and "loads py (PayloadStream lambda_resp) = Inr p"
    and "200 \<le> StatusCode lambda_resp" and "StatusCode lambda_resp < 300"
  shows "invoke_lambda client py name payload' ''RequestResponse'' w =
    (Inr (put Response_new p),
     [\<lparr>FunctionName = name, InvocationType = ''RequestResponse'', Payload = dumps py payload'\<rparr>],
     w')"
  using assms by (simp add: invoke_lambda_def)

text \<open>
  C9, as the code has it. For an event \<open>POST /contact\<close> whose body is a JSON object with
  the keys \<open>source\<close>, \<open>name\<close>, \<open>email\<close> and \<open>description\<close>, and with
  \<open>LAMBDA_NOTIFICATIONS\<close> set, \<open>contact\<close> formats the message of the four lines \<open>Source\<close>,
  \<open>Name\<close>, \<open>Mail\<close> and \<open>Desc\<close> (each ended by a newline) and calls the Lambda client
  once, in the mode \<open>RequestResponse\<close>, for the function that \<open>LAMBDA_NOTIFICATIONS\<close>
  names and with this message under \<open>"payload"\<close>, whatever the client answers. When the
  client answers with a status code from 200 to 299 and a payload that deserializes,
  \<open>contact\<close> returns the text of the response made of this payload, and the router
  answers with this text as the success payload and status 200.
\<close>

theorem contact_end_to_end:
  fixes py :: "'n py" and aws :: "('w, 'n) clients"
  defines "msg s n m t \<equiv>
    ''Source: '' @ s @ [CHR 0x0A] @ ''Name: '' @ n @ [CHR 0x0A]
    @ ''Mail: '' @ m @ [CHR 0x0A] @ ''Desc: '' @ t @ [CHR 0x0A]"
    and "invocation f p \<equiv>
      \<lparr>FunctionName = f, InvocationType = ''RequestResponse'', Payload = p\<rparr>"
  assumes "event_verb ev = ''POST''" and "event_path ev = ''/contact''"
    and "event_body ev = Some body"
    and "loads py body = Inr (JObject d)"
    and "map_of d ''source'' = Some source" and "map_of d ''name'' = Some name"
    and "map_of d ''email'' = Some email" and "map_of d ''description'' = Some description"
    and "env ''LAMBDA_NOTIFICATIONS'' = Some lambda_notifications"
  shows
   "(\<forall>out w'.
      lambda_invoke aws w (invocation lambda_notifications (dumps py
        (JObject [(''title'', JString ''New /contact submission received''),
                  (''payload'', JString (msg (format_field py source) (format_field py name)
                     (format_field py email) (format_field py description)))]))) = (out, w') \<longrightarrow>
      fst (snd (contact (lambda_invoke aws) py text_of env ev w)) =
        [invocation lambda_notifications (dumps py
          (JObject [(''title'', JString ''New /contact submission received''),
                    (''payload'', JString (msg (format_field py source) (format_field py name)
                       (format_field py email) (format_field py description)))]))] \<and>
      snd (snd (contact (lambda_invoke aws) py text_of env ev w)) = w') \<and>
    (\<forall>lambda_resp w' p.
      lambda_invoke aws w (invocation lambda_notifications (dumps py
        (JObject [(''title'', JString ''New /contact submission received''),
                  (''payload'', JString (msg (format_field py source) (format_field py name)
                     (format_field py email) (format_field py description)))]))) =
        (Inr lambda_resp, w') \<longrightarrow>
      loads py (PayloadStream lambda_resp) = Inr p \<longrightarrow>
      200 \<le> StatusCode lambda_resp \<longrightarrow> StatusCode lambda_resp < 300 \<longrightarrow>
      contact (lambda_invoke aws) py text_of env ev w =
        (Inr (text_of (put Response_new p)),
         [invocation lambda_notifications (dumps py
           (JObject [(''title'', JString ''New /contact submission received''),
                     (''payload'', JString (msg (format_field py source) (format_field py name)
                        (format_field py email) (format_field py description)))]))],
         w') \<and>
      handler aws py text_of env ev w =
        (Responded \<lparr>payload = Some (text_of (put Response_new p)), error_payload = None,
           status_code = 200\<rparr>,
         w'))"
proof -
  let ?msg = "msg (format_field py source) (format_field py name)
                (format_field py email) (format_field py description)"
  let ?pl = "JObject [(''title'', JString ''New /contact submission received''),
                      (''payload'', JString ?msg)]"
  have m: "contact_message py (event_body ev) = Inr ?msg"
    unfolding msg_def assms(5) by (rule contact_message_filled) fact+
  note c = contact_invokes [where client = "lambda_invoke aws" and text_of = text_of and w = w
    and env = env, OF assms(11) m]
  have called: "fst (snd (contact (lambda_invoke aws) py text_of env ev w)) =
        [invocation lambda_notifications (dumps py ?pl)] \<and>
      snd (snd (contact (lambda_invoke aws) py text_of env ev w)) = w'"
    if "lambda_invoke aws w (invocation lambda_notifications (dumps py ?pl)) = (out, w')"
    for out w'
    using invoke_lambda_called [where client = "lambda_invoke aws" and py = py
        and payload' = ?pl, OF that [unfolded invocation_def]]
    unfolding c invocation_def by (auto split: prod.splits sum.splits)
  have returned: "contact (lambda_invoke aws) py text_of env ev w =
        (Inr (text_of (put Response_new p)),
         [invocation lambda_notifications (dumps py ?pl)], w') \<and>
      handler aws py text_of env ev w =
        (Responded \<lparr>payload = Some (text_of (put Response_new p)), error_payload = None,
           status_code = 200\<rparr>, w')"
    if "lambda_invoke aws w (invocation lambda_notifications (dumps py ?pl)) =
          (Inr lambda_resp, w')"
      and "loads py (PayloadStream lambda_resp) = Inr p"
      and "200 \<le> StatusCode lambda_resp" and "StatusCode lambda_resp < 300"
    for lambda_resp w' p
  proof -
    have r: "contact (lambda_invoke aws) py text_of env ev w =
        (Inr (text_of (put Response_new p)),
         [invocation lambda_notifications (dumps py ?pl)], w')"
      unfolding c invocation_def
      by (simp add: invoke_lambda_returns [where client = "lambda_invoke aws",
            OF that(1) [unfolded invocation_def] that(2,3,4)])
    then show ?thesis
      by (simp add: handler_contact [OF assms(3,4)] success_def)
  qed
  show ?thesis
    apply (intro conjI allI impI)
    subgoal for out w' using called [of out w'] by simp
    subgoal for out w' using called [of out w'] by simp
    subgoal for lambda_resp w' p using returned [of lambda_resp w' p] by simp
    subgoal for lambda_resp w' p using returned [of lambda_resp w' p] by simp
    done
qed

text \<open>
  The event of the spec: the notification Lambda answers 200 with the payload \<open>"sent"\<close>.
\<close>

lemma contact_body_loads:
  "loads example_py contact_body =
     Inr (JObject [(''source'', JString ''web''), (''name'', JString ''A''),
                   (''email'', JString ''a@x.com''), (''description'', JString ''hi'')])"
  by code_simp

lemma contact_payload_dumps:
  "dumps example_py
      (JObject [(''title'', JString ''New /contact submission received''),
                (''payload'', JString (''Source: web'' @ [CHR 0x0A] @ ''Name: A'' @ [CHR 0x0A]
                    @ ''Mail: a@x.com'' @ [CHR 0x0A] @ ''Desc: hi'' @ [CHR 0x0A]))]) =
   ''title=New /contact submission received;payload=Source: web'' @ [CHR 0x0A]
     @ ''Name: A'' @ [CHR 0x0A] @ ''Mail: a@x.com'' @ [CHR 0x0A] @ ''Desc: hi'' @ [CHR 0x0A]
     @ '';''"
  by code_simp

theorem contact_end_to_end_witness:
  "contact (answering (Inr sent_invocation)) example_py example_text example_env
      (contact_event (Some contact_body)) 0 =
     (Inr (JString ''sent''),
      [\<lparr>FunctionName = ''pushover'', InvocationType = ''RequestResponse'',
        Payload = ''title=New /contact submission received;payload=Source: web'' @ [CHR 0x0A]
          @ ''Name: A'' @ [CHR 0x0A] @ ''Mail: a@x.com'' @ [CHR 0x0A] @ ''Desc: hi''
          @ [CHR 0x0A] @ '';''\<rparr>], 1) \<and>
   handler (example_clients sent_invocation) example_py example_text example_env
      (contact_event (Some contact_body)) 0 =
     (Responded \<lparr>payload = Some (JString ''sent''), error_payload = None, status_code = 200\<rparr>,
      1)"
proof -
  have e: "example_env ''LAMBDA_NOTIFICATIONS'' = Some ''pushover''"
    by (simp add: example_env_def)
  have f: "format_field example_py (JString s) = s" for s
    by (simp add: format_field_def)
  have i: "lambda_invoke (example_clients sent_invocation) = answering (Inr sent_invocation)"
    by (simp add: example_clients_def)
  have x: "example_text (put Response_new (JString ''sent'')) = JString ''sent''"
    by (simp add: example_text_def put_def Response_new_def)
  have l: "loads example_py (PayloadStream sent_invocation) = Inr (JString ''sent'')"
    by code_simp
  have s: "200 \<le> StatusCode sent_invocation" "StatusCode sent_invocation < 300"
    by (simp_all add: sent_invocation_def)
  have a: "lambda_invoke (example_clients sent_invocation) (0 :: nat) req =
      (Inr sent_invocation, 1)" for req
    by (simp add: i answering_def)
  note t = contact_end_to_end
    [where aws = "example_clients sent_invocation" and py = example_py
       and text_of = example_text and env = example_env
       and ev = "contact_event (Some contact_body)" and w = "0 :: nat"
       and body = contact_body
       and source = "JString ''web''" and name = "JString ''A''"
       and email = "JString ''a@x.com''" and description = "JString ''hi''"
       and lambda_notifications = "''pushover''",
     OF _ _ _ contact_body_loads _ _ _ _ e, THEN conjunct2, rule_format,
     OF _ _ _ _ _ _ _ a l s]
  have "contact (lambda_invoke (example_clients sent_invocation)) example_py example_text
      example_env (contact_event (Some contact_body)) 0 =
     (Inr (example_text (put Response_new (JString ''sent''))),
      [\<lparr>FunctionName = ''pushover'', InvocationType = ''RequestResponse'',
        Payload = dumps example_py
          (JObject [(''title'', JString ''New /contact submission received''),
                (''payload'', JString (''Source: '' @ format_field example_py (JString ''web'')
                    @ [CHR 0x0A] @ ''Name: '' @ format_field example_py (JString ''A'')
                    @ [CHR 0x0A] @ ''Mail: '' @ format_field example_py (JString ''a@x.com'')
                    @ [CHR 0x0A] @ ''Desc: '' @ format_field example_py (JString ''hi'')
                    @ [CHR 0x0A]))])\<rparr>], 1) \<and>
   handler (example_clients sent_invocation) example_py example_text example_env
      (contact_event (Some contact_body)) 0 =
     (Responded \<lparr>payload = Some (example_text (put Response_new (JString ''sent''))),
        error_payload = None, status_code = 200\<rparr>, 1)"
    by (rule t) (simp_all add: contact_event_def)
  then show ?thesis using contact_payload_dumps by (simp add: f i x)
qed

text \<open>
  The claim as the spec states it fails when the notification Lambda answers with the
  status 500: \<open>invoke_lambda\<close> raises a \<open>HandledError\<close> with this status, \<open>contact\<close> lets
  it pass, and the router answers with the failure and status 500.
\<close>

theorem failed_invocation_counterexample:
  "fst (contact (answering (Inr failed_invocation)) example_py example_text example_env
      (contact_event (Some contact_body)) 0) =
     Inl (HandledError (JString ''lambda response: {StatusCode: 500}'') (Some 500)) \<and>
   fst (handler (example_clients failed_invocation) example_py example_text example_env
      (contact_event (Some contact_body)) 0) =
     Responded \<lparr>payload = None,
        error_payload = Some (JString ''lambda response: {StatusCode: 500}''),
        status_code = 500\<rparr>"
  by code_simp

end
